theory Spec2Isabelle
  imports Complex_Main "HOL-Library.AList"
begin

section \<open>JavaScript numbers\<close>

text \<open>
  Every number-valued property of the game's objects is a \<open>jsnum\<close>: a finite number, or
  \<open>NaN\<close>. A property the object does not have reads as \<open>undefined\<close>, which every
  arithmetic operator, comparison and truthiness test of the source treats exactly as it
  treats NaN, so both are the one value \<open>NaN\<close>. Finite numbers are reals: the rounding of
  IEEE doubles, overflow and the infinities are outside the model (a division by zero,
  which no entity built by the generators reaches, yields \<open>NaN\<close>).
\<close>

datatype jsnum = Num real | NaN

fun jadd :: "jsnum \<Rightarrow> jsnum \<Rightarrow> jsnum" where
  "jadd (Num a) (Num b) = Num (a + b)"
| "jadd _ _ = NaN"

fun jsub :: "jsnum \<Rightarrow> jsnum \<Rightarrow> jsnum" where
  "jsub (Num a) (Num b) = Num (a - b)"
| "jsub _ _ = NaN"

fun jmul :: "jsnum \<Rightarrow> jsnum \<Rightarrow> jsnum" where
  "jmul (Num a) (Num b) = Num (a * b)"
| "jmul _ _ = NaN"

fun jdiv :: "jsnum \<Rightarrow> jsnum \<Rightarrow> jsnum" where
  "jdiv (Num a) (Num b) = (if b = 0 then NaN else Num (a / b))"
| "jdiv _ _ = NaN"

text \<open>\<open>Math.floor\<close>, \<open>Math.max\<close> and \<open>Math.min\<close>: NaN as soon as an argument is.\<close>

fun jfloor :: "jsnum \<Rightarrow> jsnum" where
  "jfloor (Num a) = Num (of_int \<lfloor>a\<rfloor>)"
| "jfloor NaN = NaN"

fun jmax :: "jsnum \<Rightarrow> jsnum \<Rightarrow> jsnum" where
  "jmax (Num a) (Num b) = Num (max a b)"
| "jmax _ _ = NaN"

fun jmin :: "jsnum \<Rightarrow> jsnum \<Rightarrow> jsnum" where
  "jmin (Num a) (Num b) = Num (min a b)"
| "jmin _ _ = NaN"

text \<open>The comparisons \<open><\<close>, \<open><=\<close>, \<open>>\<close>, \<open>>=\<close>: false as soon as an operand is NaN.\<close>

fun jlt :: "jsnum \<Rightarrow> jsnum \<Rightarrow> bool" where
  "jlt (Num a) (Num b) = (a < b)"
| "jlt _ _ = False"

fun jle :: "jsnum \<Rightarrow> jsnum \<Rightarrow> bool" where
  "jle (Num a) (Num b) = (a \<le> b)"
| "jle _ _ = False"

definition jgt :: "jsnum \<Rightarrow> jsnum \<Rightarrow> bool" where
  "jgt a b = jlt b a"

definition jge :: "jsnum \<Rightarrow> jsnum \<Rightarrow> bool" where
  "jge a b = jle b a"

text \<open>Truthiness of a number (0, NaN and undefined are falsy) and \<open>a || b\<close>.\<close>

fun truthy :: "jsnum \<Rightarrow> bool" where
  "truthy (Num a) = (a \<noteq> 0)"
| "truthy NaN = False"

definition jor :: "jsnum \<Rightarrow> jsnum \<Rightarrow> jsnum" where
  "jor a b = (if truthy a then a else b)"

text \<open>
  \<open>Math.random()\<close> is a sequence of draws and a cursor into it; the states below carry
  both. \<open>randomInt\<close> and \<open>randomChoice\<close> are the utility methods all three classes share;
  an index outside the array reads \<open>undefined\<close>, here \<open>None\<close>.
\<close>

definition randomInt :: "int \<Rightarrow> int \<Rightarrow> real \<Rightarrow> int" where
  "randomInt lo hi r = \<lfloor>r * of_int (hi - lo + 1)\<rfloor> + lo"

definition randomChoice :: "'a list \<Rightarrow> real \<Rightarrow> 'a option" where
  "randomChoice array r =
     (let i = \<lfloor>r * real (length array)\<rfloor>
      in if 0 \<le> i \<and> nat i < length array then Some (array ! nat i) else None)"

text \<open>\<open>String.prototype.toLowerCase\<close> on the ASCII letters.\<close>

definition lower :: "char \<Rightarrow> char" where
  "lower c =
     (case map_of (zip ''ABCDEFGHIJKLMNOPQRSTUVWXYZ'' ''abcdefghijklmnopqrstuvwxyz'') c of
        None \<Rightarrow> c
      | Some d \<Rightarrow> d)"

definition toLowerCase :: "string \<Rightarrow> string" where
  "toLowerCase s = map lower s"

text \<open>\<open>s.replace(a, b)\<close> for one-character strings: the first occurrence only.\<close>

fun replaceFirst :: "char \<Rightarrow> char \<Rightarrow> string \<Rightarrow> string" where
  "replaceFirst a b [] = []"
| "replaceFirst a b (c # cs) = (if c = a then b # cs else c # replaceFirst a b cs)"

section \<open>The objects of the game\<close>

record stats =
  st_strength :: jsnum
  st_agility :: jsnum
  st_intelligence :: jsnum
  st_vitality :: jsnum

text \<open>An entry of a skill's \<open>statusEffects\<close> list: \<open>{ type, duration, chance }\<close>.\<close>

record status_roll =
  eff_type :: string
  eff_duration :: jsnum
  eff_chance :: jsnum

record skill =
  skill_name :: string
  manaCost :: jsnum
  cooldown :: jsnum
  currentCooldown :: jsnum
  damage :: jsnum
  healing :: jsnum
  skill_type :: string
  scalingFactor :: jsnum
  criticalChance :: jsnum
  accuracy :: jsnum
  criticalMultiplier :: jsnum
  skill_effects :: "status_roll list"
  unlocked :: bool
  requiredLevel :: jsnum

text \<open>A boss phase (its message only feeds the log) and the boss's \<open>bossData\<close>.\<close>

record phase =
  hpThreshold :: jsnum
  abilities :: "string list"

record boss_data =
  phases :: "phase list"
  currentPhase :: nat
  triggeredPhases :: "nat set"

text \<open>
  One record for every entity object, character or enemy: the union of the properties
  the three classes read. A property the object lacks is \<open>NaN\<close> (a number), \<open>[]\<close> (a
  list the source guards with \<open>||\<close> or \<open>if\<close>), \<open>False\<close> (a flag) or \<open>None\<close>. A
  character created by \<open>Entities.createCharacter\<close> has \<open>maxHealth\<close> and no \<open>maxHp\<close>; an
  enemy generated by \<open>MapGenerator\<close> has \<open>maxHp\<close> and no \<open>maxHealth\<close>, no primary stats
  and no mana. \<open>statusEffects\<close> is the \<open>Map\<close> from effect type to the remaining duration,
  in insertion order; \<open>defenseBonus\<close> is \<open>factionBonuses.defenseBonus\<close>.
\<close>

record entity =
  name :: string
  className :: string
  etype :: string
  level :: jsnum
  experience :: jsnum
  experienceToNext :: jsnum
  baseStats :: stats
  growthRates :: stats
  strength :: jsnum
  agility :: jsnum
  intelligence :: jsnum
  vitality :: jsnum
  maxHealth :: jsnum
  maxMana :: jsnum
  attack :: jsnum
  defense :: jsnum
  speed :: jsnum
  hp :: jsnum
  mana :: jsnum
  maxHp :: jsnum
  skills :: "skill list"
  statusEffects :: "(string \<times> jsnum) list"
  defenseBonus :: jsnum
  isBoss :: bool
  bossData :: "boss_data option"
  phaseAbilities :: "string list"
  statusResistance :: jsnum
  criticalResistance :: jsnum
  difficulty :: jsnum

definition noStats :: stats where
  "noStats = \<lparr>st_strength = NaN, st_agility = NaN, st_intelligence = NaN, st_vitality = NaN\<rparr>"

text \<open>The object with no property at all: every object literal below extends it.\<close>

definition emptyObject :: entity where
  "emptyObject =
     \<lparr>name = [], className = [], etype = [], level = NaN, experience = NaN,
      experienceToNext = NaN, baseStats = noStats, growthRates = noStats,
      strength = NaN, agility = NaN, intelligence = NaN, vitality = NaN,
      maxHealth = NaN, maxMana = NaN, attack = NaN, defense = NaN, speed = NaN,
      hp = NaN, mana = NaN, maxHp = NaN, skills = [], statusEffects = [],
      defenseBonus = NaN, isBoss = False, bossData = None, phaseAbilities = [],
      statusResistance = NaN, criticalResistance = NaN, difficulty = NaN\<rparr>"

definition emptySkill :: skill where
  "emptySkill =
     \<lparr>skill_name = [], manaCost = NaN, cooldown = NaN, currentCooldown = NaN,
      damage = NaN, healing = NaN, skill_type = [], scalingFactor = NaN,
      criticalChance = NaN, accuracy = NaN, criticalMultiplier = NaN,
      skill_effects = [], unlocked = False, requiredLevel = NaN\<rparr>"

text \<open>\<open>map.has(key)\<close> on a status-effect map.\<close>

definition has :: "(string \<times> jsnum) list \<Rightarrow> string \<Rightarrow> bool" where
  "has m k = (map_of m k \<noteq> None)"

section \<open>The combat engine (\<open>src/js/game/combat.js\<close>)\<close>

text \<open>
  \<open>this.statusEffects\<close>: of a catalog entry the engine reads \<open>effect.damagePerTurn\<close> and
  \<open>effect.healPerTurn\<close> only (the stat multipliers and \<open>skipTurn\<close> are never read; the
  engine tests effect names instead).
\<close>

definition statusEffectCatalog :: "string \<Rightarrow> (jsnum \<times> jsnum) option" where
  "statusEffectCatalog k =
     map_of
       [(''strength_boost'', (NaN, NaN)), (''defense_boost'', (NaN, NaN)),
        (''speed_boost'', (NaN, NaN)), (''regeneration'', (NaN, Num 0.1)),
        (''poison'', (Num 0.08, NaN)), (''weakness'', (NaN, NaN)),
        (''slow'', (NaN, NaN)), (''curse'', (NaN, NaN)),
        (''stunned'', (NaN, NaN)), (''bleeding'', (Num 0.05, NaN)),
        (''burning'', (Num 0.12, NaN)), (''frozen'', (NaN, NaN))] k"

definition mkPhase :: "real \<Rightarrow> string \<Rightarrow> phase" where
  "mkPhase t a = \<lparr>hpThreshold = Num t, abilities = [a]\<rparr>"

text \<open>\<open>this.bossPhases\<close>.\<close>

definition bossPhases :: "string \<Rightarrow> phase list option" where
  "bossPhases k =
     map_of
       [(''forest_guardian'',
           [mkPhase 0.75 ''nature_heal'', mkPhase 0.5 ''root_entangle'',
            mkPhase 0.25 ''forest_fury'']),
        (''sand_dragon'',
           [mkPhase 0.66 ''sand_breath'', mkPhase 0.33 ''dune_dive'',
            mkPhase 0.1 ''desert_rage'']),
        (''ice_queen'',
           [mkPhase 0.8 ''frost_armor'', mkPhase 0.6 ''ice_storm'',
            mkPhase 0.4 ''frozen_heart'', mkPhase 0.2 ''absolute_zero''])] k"

datatype turn = PlayerTurn | EnemyTurn

text \<open>
  The two entity objects of a session live in a store; \<open>who\<close> is a reference to one of
  them. \<open>this.player\<close> and \<open>this.enemy\<close> are references or \<open>null\<close>: \<open>cleanup\<close> nulls
  them while local variables of a running action still hold the objects.
\<close>

datatype who = P | E

datatype error = TypeError | UnknownClass

record rewards =
  items :: "string list"
  gold :: jsnum
  essences :: "jsnum option"

text \<open>What \<open>endCombat\<close> hands to the promise's resolver (without the two entity clones).\<close>

record combat_result =
  victory :: bool
  reason :: string
  turnCount :: nat
  res_experience :: "jsnum option"
  res_rewards :: "rewards option"

record combat =
  isActive :: bool
  currentTurn :: turn
  turnCounter :: nat
  heapPlayer :: entity
  heapEnemy :: entity
  player :: "who option"
  enemy :: "who option"
  optIsBoss :: bool
  allowFlee :: bool
  combatResolve :: bool
  resolved :: "combat_result option"
  draws :: "nat \<Rightarrow> real"
  cursor :: nat

definition obj :: "combat \<Rightarrow> who \<Rightarrow> entity" where
  "obj s w = (case w of P \<Rightarrow> heapPlayer s | E \<Rightarrow> heapEnemy s)"

definition setObj :: "who \<Rightarrow> entity \<Rightarrow> combat \<Rightarrow> combat" where
  "setObj w e s = (case w of P \<Rightarrow> s\<lparr>heapPlayer := e\<rparr> | E \<Rightarrow> s\<lparr>heapEnemy := e\<rparr>)"

text \<open>One call of \<open>Math.random()\<close>.\<close>

definition random :: "combat \<Rightarrow> real \<times> combat" where
  "random s = (draws s (cursor s), s\<lparr>cursor := Suc (cursor s)\<rparr>)"

subsection \<open>Damage, critical hits, accuracy, healing\<close>

definition getRelevantAttackStat :: "entity \<Rightarrow> skill \<Rightarrow> jsnum" where
  "getRelevantAttackStat ent sk =
     (if skill_type sk = ''physical'' then strength ent
      else if skill_type sk = ''magic'' then intelligence ent
      else if skill_type sk = ''ranged'' then agility ent
      else jor (attack ent) (strength ent))"

text \<open>\<open>calculateDamage\<close>; \<open>r\<close> is its one draw.\<close>

definition calculateDamage :: "entity \<Rightarrow> entity \<Rightarrow> skill \<Rightarrow> real \<Rightarrow> jsnum" where
  "calculateDamage attacker defender sk r =
     (let baseDamage = damage sk;
          attackStat = getRelevantAttackStat attacker sk;
          defenseStat = defense defender;
          d0 = jadd baseDamage (jmul attackStat (scalingFactor sk));
          damageReduction = jdiv defenseStat (jadd defenseStat (Num 100));
          d1 = jmul d0 (jsub (Num 1) damageReduction);
          variance = Num (0.85 + r * 0.3);
          d2 = jmul d1 variance;
          d3 = (if has (statusEffects attacker) ''strength_boost'' then jmul d2 (Num 1.2) else d2);
          d4 = (if has (statusEffects attacker) ''weakness'' then jmul d3 (Num 0.7) else d3);
          d5 = (if has (statusEffects defender) ''defense_boost'' then jmul d4 (Num 0.7) else d4)
      in jmax (Num 1) (jfloor d5))"

definition calculateHealing :: "entity \<Rightarrow> skill \<Rightarrow> jsnum" where
  "calculateHealing caster sk =
     (let baseHealing = healing sk;
          relevantStat = (if skill_type sk = ''magic'' then intelligence caster else vitality caster);
          h0 = jadd baseHealing (jmul relevantStat (scalingFactor sk));
          h1 = (if has (statusEffects caster) ''blessed'' then jmul h0 (Num 1.3) else h0);
          h2 = (if has (statusEffects caster) ''curse'' then jmul h1 (Num 0.7) else h1)
      in jfloor h2)"

definition checkCritical :: "entity \<Rightarrow> skill \<Rightarrow> real \<Rightarrow> bool" where
  "checkCritical attacker sk r =
     (let c0 = jor (criticalChance sk) (Num 0.1);
          c1 = jadd c0 (jmul (agility attacker) (Num 0.001));
          c2 = (if has (statusEffects attacker) ''focused'' then jmul c1 (Num 1.5) else c1)
      in jlt (Num r) c2)"

definition checkHit :: "entity \<Rightarrow> entity \<Rightarrow> skill \<Rightarrow> real \<Rightarrow> bool" where
  "checkHit attacker defender sk r =
     (let h0 = jor (accuracy sk) (Num 0.9);
          speedDiff = jsub (speed attacker) (speed defender);
          h1 = jadd h0 (jmul speedDiff (Num 0.01));
          h2 = (if has (statusEffects defender) ''blinded'' then jmul h1 (Num 1.3) else h1);
          h3 = (if has (statusEffects defender) ''speed_boost'' then jmul h2 (Num 0.8) else h2)
      in jlt (Num r) (jmax (Num 0.1) (jmin (Num 0.95) h3)))"

subsection \<open>Resolving a skill\<close>

text \<open>
  The result object of \<open>executeSkill\<close>. \<open>res_slot\<close> says which object \<open>result.skill\<close> is:
  slot \<open>i\<close> of the caster's own \<open>skills\<close> array (the player's case), or a skill object
  built for this action alone (the enemy's case, \<open>None\<close>). The message is omitted.
\<close>

record skill_result =
  res_skill :: skill
  res_slot :: "nat option"
  res_caster :: who
  res_target :: "who option"
  res_damage :: jsnum
  res_healing :: jsnum
  res_effects :: "(string \<times> jsnum) list"
  res_critical :: bool
  res_hit :: bool

text \<open>The \<open>forEach\<close> over \<open>skill.statusEffects\<close>: one draw for each listed effect.\<close>

fun rollEffects :: "status_roll list \<Rightarrow> combat \<Rightarrow> (string \<times> jsnum) list \<times> combat" where
  "rollEffects [] s = ([], s)"
| "rollEffects (ef # efs) s =
     (let (r, s1) = random s;
          (rest, s2) = rollEffects efs s1
      in if jlt (Num r) (eff_chance ef) then ((eff_type ef, eff_duration ef) # rest, s2)
         else (rest, s2))"

text \<open>
  \<open>applySpecialSkillEffects\<close>: the switch on the lower-cased skill name. The telegraphed
  charge only logs and waits.
\<close>

definition applySpecialSkillEffects :: "skill \<Rightarrow> skill_result \<Rightarrow> combat \<Rightarrow> skill_result \<times> combat" where
  "applySpecialSkillEffects sk res s =
     (let nm = toLowerCase (skill_name sk)
      in if nm = ''charge'' then (res, s)
         else if nm = ''fireball'' then
           (let res1 = res\<lparr>res_hit := True\<rparr>; (r, s1) = random s
            in if r < 0.3 then (res1\<lparr>res_effects := res_effects res1 @ [(''burning'', Num 2)]\<rparr>, s1)
               else (res1, s1))
         else if nm = ''ice_storm'' then
           (if enemy s = Some (res_caster res) \<and> isBoss (obj s (res_caster res)) then
              (let (r, s1) = random s
               in if r < 0.4 then (res\<lparr>res_effects := res_effects res @ [(''frozen'', Num 1)]\<rparr>, s1)
                  else (res, s1))
            else (res, s))
         else if nm = ''shadow_step'' then (res\<lparr>res_hit := True\<rparr>, s)
         else (res, s))"

text \<open>
  Exceptions: a function that can raise returns \<open>Inl\<close> of the error and of the state at
  the moment of the raise (what a \<open>catch\<close> block finds), or \<open>Inr\<close> of its result.
\<close>

type_synonym 'a outcome = "(error \<times> combat) + 'a"

text \<open>
  \<open>executeSkill(caster, target, skill)\<close>; the draws are taken in the source's order. The
  target may be \<open>null\<close>: then \<open>defender.defense\<close> raises as soon as the skill has a damage
  component, before any draw.
\<close>

definition executeSkill ::
  "who \<Rightarrow> who option \<Rightarrow> skill \<Rightarrow> nat option \<Rightarrow> combat \<Rightarrow> (skill_result \<times> combat) outcome" where
  "executeSkill c t sk slot s =
     (let res0 = \<lparr>res_skill = sk, res_slot = slot, res_caster = c, res_target = t,
                  res_damage = Num 0, res_healing = Num 0, res_effects = [],
                  res_critical = False, res_hit = True\<rparr>
      in case (if jgt (damage sk) (Num 0) then
                 (case t of
                    None \<Rightarrow> Inl (TypeError, s)
                  | Some tw \<Rightarrow>
                      (let (r1, sa) = random s;
                           dmg = calculateDamage (obj s c) (obj s tw) sk r1;
                           (r2, sb) = random sa;
                           crit = checkCritical (obj s c) sk r2;
                           (r3, sc) = random sb;
                           hit = checkHit (obj s c) (obj s tw) sk r3;
                           dmg1 = (if crit then jmul dmg (jor (criticalMultiplier sk) (Num 2.0))
                                   else dmg);
                           dmg2 = (if \<not> hit then Num 0 else dmg1)
                       in Inr (res0\<lparr>res_damage := dmg2, res_critical := crit, res_hit := hit\<rparr>, sc)))
               else Inr (res0, s)) of
           Inl x \<Rightarrow> Inl x
         | Inr (res1, s1) \<Rightarrow>
             (let res2 = (if jgt (healing sk) (Num 0)
                          then res1\<lparr>res_healing := calculateHealing (obj s1 c) sk\<rparr> else res1);
                  (effs, s2) = rollEffects (skill_effects sk) s1;
                  res3 = res2\<lparr>res_effects := effs\<rparr>
              in Inr (applySpecialSkillEffects sk res3 s2)))"

subsection \<open>Boss phases\<close>

text \<open>
  The \<open>for\<close> loop of \<open>checkBossPhaseTransition\<close>: from index \<open>i\<close> on, the first phase whose
  threshold the hp fraction has reached and whose index is not in \<open>triggeredPhases\<close>.
\<close>

function scanPhases :: "phase list \<Rightarrow> nat set \<Rightarrow> jsnum \<Rightarrow> nat \<Rightarrow> nat option" where
  "scanPhases ps trig pct i =
     (if i < length ps then
        (if jle pct (hpThreshold (ps ! i)) \<and> i \<notin> trig then Some i
         else scanPhases ps trig pct (Suc i))
      else None)"
  by pat_completeness auto
termination
  by (relation "measure (\<lambda>(ps, trig, pct, i). length ps - i)") auto

declare scanPhases.simps [simp del]

definition checkBossPhaseTransition :: "entity \<Rightarrow> entity" where
  "checkBossPhaseTransition boss =
     (case bossData boss of
        None \<Rightarrow> boss
      | Some bd \<Rightarrow>
          (let currentHpPercent = jdiv (hp boss) (maxHp boss)
           in case scanPhases (phases bd) (triggeredPhases bd) currentHpPercent (currentPhase bd) of
                None \<Rightarrow> boss
              | Some i \<Rightarrow>
                  boss\<lparr>bossData := Some (bd\<lparr>triggeredPhases := insert i (triggeredPhases bd),
                                              currentPhase := i + 1\<rparr>),
                        phaseAbilities := phaseAbilities boss @ abilities (phases bd ! i)\<rparr>))"

subsection \<open>The end of a combat\<close>

definition calculateExperienceGain :: "entity \<Rightarrow> jsnum" where
  "calculateExperienceGain en =
     (let baseExp = jmul (level en) (Num 10);
          difficultyBonus = jfloor (jmul baseExp (jor (difficulty en) (Num 1.0)));
          bossBonus = (if isBoss en then baseExp else Num 0)
      in jadd (jadd baseExp difficultyBonus) bossBonus)"

text \<open>An item is its name. \<open>randomType.replace\<close> raises when the choice is \<open>undefined\<close>.\<close>

definition generateRandomItem :: "combat \<Rightarrow> (string \<times> combat) outcome" where
  "generateRandomItem s =
     (let (r, s1) = random s
      in case randomChoice [''health_potion'', ''mana_potion'', ''strength_elixir''] r of
           None \<Rightarrow> Inl (TypeError, s1)
         | Some randomType \<Rightarrow> Inr (replaceFirst (CHR ''_'') (CHR '' '') randomType, s1))"

definition generateBossItem :: "entity \<Rightarrow> string" where
  "generateBossItem en = name en @ [CHR 0x27] @ ''s Trophy''"

text \<open>\<open>calculateCombatRewards\<close>, with \<open>this.enemy\<close> already dereferenced to \<open>w\<close>.\<close>

definition calculateCombatRewards :: "who \<Rightarrow> combat \<Rightarrow> (rewards \<times> combat) outcome" where
  "calculateCombatRewards w s =
     (let (r1, s1) = random s;
          goldAmount = jadd (Num (of_int (randomInt 5 15 r1))) (level (obj s1 w));
          dropChance = (if isBoss (obj s1 w) then 0.8 else 0.3);
          (r2, s2) = random s1
      in case (if r2 < dropChance then
                 (case generateRandomItem s2 of
                    Inl x \<Rightarrow> Inl x
                  | Inr (it, s3) \<Rightarrow> Inr ([it], s3))
               else Inr ([], s2)) of
           Inl x \<Rightarrow> Inl x
         | Inr (its, s4) \<Rightarrow>
             (if isBoss (obj s4 w) then
                (let (r3, s5) = random s4
                 in Inr (\<lparr>items = its @ [generateBossItem (obj s4 w)], gold = goldAmount,
                          essences = Some (Num (of_int (randomInt 2 5 r3)))\<rparr>, s5))
              else Inr (\<lparr>items = its, gold = goldAmount, essences = None\<rparr>, s4)))"

definition cleanup :: "combat \<Rightarrow> combat" where
  "cleanup s = s\<lparr>player := None, enemy := None, currentTurn := PlayerTurn, turnCounter := 0\<rparr>"

text \<open>
  \<open>endCombat(victory, reason)\<close>. On a victory \<open>this.enemy.level\<close> raises when
  \<open>this.enemy\<close> is already \<open>null\<close>.
\<close>

definition endCombat :: "bool \<Rightarrow> string \<Rightarrow> combat \<Rightarrow> combat outcome" where
  "endCombat vic rsn s =
     (let s1 = s\<lparr>isActive := False\<rparr>
      in case (if vic then
                 (case enemy s1 of
                    None \<Rightarrow> Inl (TypeError, s1)
                  | Some w \<Rightarrow>
                      (case calculateCombatRewards w s1 of
                         Inl x \<Rightarrow> Inl x
                       | Inr (rw, s2) \<Rightarrow>
                           Inr (Some (calculateExperienceGain (obj s1 w)), Some rw, s2)))
               else Inr (None, None, s1)) of
           Inl x \<Rightarrow> Inl x
         | Inr (ex, rw, s3) \<Rightarrow>
             (let results = \<lparr>victory = vic, reason = rsn, turnCount = turnCounter s3,
                             res_experience = ex, res_rewards = rw\<rparr>;
                  s4 = cleanup s3
              in Inr (if combatResolve s4
                      then s4\<lparr>resolved := Some results, combatResolve := False\<rparr> else s4)))"

subsection \<open>Damage, healing and status effects on an entity\<close>

definition dealDamage :: "who \<Rightarrow> jsnum \<Rightarrow> combat \<Rightarrow> combat outcome" where
  "dealDamage t dmg s =
     (let tgt = obj s t;
          s1 = setObj t (tgt\<lparr>hp := jmax (Num 0) (jsub (hp tgt) dmg)\<rparr>) s
      in case (if jle (hp (obj s1 t)) (Num 0) then
                 (if player s1 = Some t then endCombat False ''Player defeated'' s1
                  else endCombat True ''Enemy defeated'' s1)
               else Inr s1) of
           Inl x \<Rightarrow> Inl x
         | Inr s2 \<Rightarrow>
             Inr (if isBoss (obj s2 t) \<and> bossData (obj s2 t) \<noteq> None
                  then setObj t (checkBossPhaseTransition (obj s2 t)) s2 else s2))"

definition healEntity :: "who \<Rightarrow> jsnum \<Rightarrow> combat \<Rightarrow> combat" where
  "healEntity t amount s =
     (let tgt = obj s t;
          actualHealing = jmin amount (jsub (maxHp tgt) (hp tgt))
      in setObj t (tgt\<lparr>hp := jadd (hp tgt) actualHealing\<rparr>) s)"

definition applyStatusEffect :: "who \<Rightarrow> string \<Rightarrow> jsnum \<Rightarrow> combat \<Rightarrow> combat" where
  "applyStatusEffect t effectType dur s =
     (let resistance = jor (statusResistance (obj s t)) (Num 0);
          (r, s1) = random s
      in if jlt (Num r) resistance then s1
         else setObj t ((obj s1 t)\<lparr>statusEffects :=
                          AList.update effectType dur (statusEffects (obj s1 t))\<rparr>) s1)"

subsection \<open>Applying a resolved skill\<close>

text \<open>The \<open>forEach\<close> over \<open>result.statusEffects\<close>; a \<open>null\<close> target raises at the first one.\<close>

fun applyEffects :: "who option \<Rightarrow> (string \<times> jsnum) list \<Rightarrow> combat \<Rightarrow> combat outcome" where
  "applyEffects t [] s = Inr s"
| "applyEffects None (ef # efs) s = Inl (TypeError, s)"
| "applyEffects (Some tw) (ef # efs) s =
     applyEffects (Some tw) efs (applyStatusEffect tw (fst ef) (snd ef) s)"

text \<open>\<open>caster.mana -= skill.manaCost; skill.currentCooldown = skill.cooldown\<close>.\<close>

definition consumeMana :: "skill_result \<Rightarrow> combat \<Rightarrow> combat" where
  "consumeMana res s =
     (let c = res_caster res;
          cst = (obj s c)\<lparr>mana := jsub (mana (obj s c)) (manaCost (res_skill res))\<rparr>
      in case res_slot res of
           None \<Rightarrow> setObj c cst s
         | Some i \<Rightarrow>
             setObj c (cst\<lparr>skills := (skills cst)
                          [i := (skills cst ! i)\<lparr>currentCooldown := cooldown (skills cst ! i)\<rparr>]\<rparr>) s)"

definition applySkillResult :: "skill_result \<Rightarrow> combat \<Rightarrow> combat outcome" where
  "applySkillResult res s =
     (case (if jgt (res_damage res) (Num 0) \<and> res_hit res then
              (case res_target res of
                 None \<Rightarrow> Inl (TypeError, s)
               | Some tw \<Rightarrow> dealDamage tw (res_damage res) s)
            else Inr s) of
        Inl x \<Rightarrow> Inl x
      | Inr s1 \<Rightarrow>
          (let s2 = (if jgt (res_healing res) (Num 0)
                     then healEntity (res_caster res) (res_healing res) s1 else s1)
           in case applyEffects (res_target res) (res_effects res) s2 of
                Inl x \<Rightarrow> Inl x
              | Inr s3 \<Rightarrow> Inr (consumeMana res s3)))"

subsection \<open>The end of a turn\<close>

definition applyStatusEffectTick :: "who \<Rightarrow> string \<Rightarrow> combat \<Rightarrow> combat outcome" where
  "applyStatusEffectTick w effectType s =
     (case statusEffectCatalog effectType of
        None \<Rightarrow> Inr s
      | Some (damagePerTurn, healPerTurn) \<Rightarrow>
          (case (if truthy damagePerTurn
                 then dealDamage w (jfloor (jmul (maxHp (obj s w)) damagePerTurn)) s
                 else Inr s) of
             Inl x \<Rightarrow> Inl x
           | Inr s1 \<Rightarrow>
               Inr (if truthy healPerTurn
                    then healEntity w (jfloor (jmul (maxHp (obj s1 w)) healPerTurn)) s1
                    else s1)))"

text \<open>\<open>effect.duration--\<close> on the entry of one effect type.\<close>

definition decrementDuration :: "who \<Rightarrow> string \<Rightarrow> combat \<Rightarrow> combat" where
  "decrementDuration w k s =
     setObj w ((obj s w)\<lparr>statusEffects :=
                 map (\<lambda>(k', d). if k' = k then (k', jsub d (Num 1)) else (k', d))
                     (statusEffects (obj s w))\<rparr>) s"

text \<open>The first \<open>forEach\<close> of \<open>processStatusEffects\<close>, over the effect types in map order.\<close>

fun tickEffects :: "who \<Rightarrow> string list \<Rightarrow> combat \<Rightarrow> combat outcome" where
  "tickEffects w [] s = Inr s"
| "tickEffects w (k # ks) s =
     (case applyStatusEffectTick w k s of
        Inl x \<Rightarrow> Inl x
      | Inr s1 \<Rightarrow> tickEffects w ks (decrementDuration w k s1))"

text \<open>
  \<open>processStatusEffects(entity)\<close>: \<open>entity.statusEffects\<close> raises on \<open>null\<close>. The expired
  effects (duration \<open><= 0\<close> after the decrement) are deleted after the loop.
\<close>

definition processStatusEffects :: "who option \<Rightarrow> combat \<Rightarrow> combat outcome" where
  "processStatusEffects ent s =
     (case ent of
        None \<Rightarrow> Inl (TypeError, s)
      | Some w \<Rightarrow>
          (case tickEffects w (map fst (statusEffects (obj s w))) s of
             Inl x \<Rightarrow> Inl x
           | Inr s1 \<Rightarrow>
               Inr (setObj w ((obj s1 w)\<lparr>statusEffects :=
                      filter (\<lambda>(k, d). \<not> jle d (Num 0)) (statusEffects (obj s1 w))\<rparr>) s1)))"

definition updateCooldowns :: "who option \<Rightarrow> combat \<Rightarrow> combat outcome" where
  "updateCooldowns ent s =
     (case ent of
        None \<Rightarrow> Inl (TypeError, s)
      | Some w \<Rightarrow>
          Inr (setObj w ((obj s w)\<lparr>skills :=
                 map (\<lambda>sk. if jgt (currentCooldown sk) (Num 0)
                            then sk\<lparr>currentCooldown := jsub (currentCooldown sk) (Num 1)\<rparr> else sk)
                     (skills (obj s w))\<rparr>) s))"

text \<open>\<open>endPlayerTurn\<close>; the enemy's turn it schedules with \<open>setTimeout\<close> is a later event.\<close>

definition endPlayerTurn :: "combat \<Rightarrow> combat outcome" where
  "endPlayerTurn s =
     (case processStatusEffects (player s) s of
        Inl x \<Rightarrow> Inl x
      | Inr s1 \<Rightarrow>
          (case updateCooldowns (player s1) s1 of
             Inl x \<Rightarrow> Inl x
           | Inr s2 \<Rightarrow> Inr (s2\<lparr>currentTurn := EnemyTurn\<rparr>)))"

subsection \<open>The player's actions\<close>

text \<open>\<open>canUseSkill(skill)\<close>, reading \<open>this.player\<close> (here \<open>pl\<close>).\<close>

definition canUseSkill :: "entity \<Rightarrow> skill \<Rightarrow> bool" where
  "canUseSkill pl sk =
     (if jlt (mana pl) (manaCost sk) then False
      else if jgt (currentCooldown sk) (Num 0) then False
      else if has (statusEffects pl) ''stunned'' \<or> has (statusEffects pl) ''frozen'' then False
      else True)"

text \<open>\<open>array[index]\<close> for a numeric index: \<open>undefined\<close> outside the array.\<close>

definition skillAt :: "skill list \<Rightarrow> int \<Rightarrow> skill option" where
  "skillAt sks i = (if 0 \<le> i \<and> nat i < length sks then Some (sks ! nat i) else None)"

text \<open>
  \<open>useSkill(skillIndex)\<close>. \<open>this.player.skills\<close> is read outside the \<open>try\<close> block;
  whatever raises inside it is caught, and the call returns \<open>false\<close>.
\<close>

definition useSkill :: "int \<Rightarrow> combat \<Rightarrow> (bool \<times> combat) outcome" where
  "useSkill skillIndex s =
     (if \<not> isActive s \<or> currentTurn s \<noteq> PlayerTurn then Inr (False, s)
      else case player s of
        None \<Rightarrow> Inl (TypeError, s)
      | Some pw \<Rightarrow>
          (case skillAt (skills (obj s pw)) skillIndex of
             None \<Rightarrow> Inr (False, s)
           | Some sk \<Rightarrow>
               if \<not> canUseSkill (obj s pw) sk then Inr (False, s)
               else
                 (case (case executeSkill pw (enemy s) sk (Some (nat skillIndex)) s of
                          Inl x \<Rightarrow> Inl x
                        | Inr (res, s1) \<Rightarrow>
                            (case applySkillResult res s1 of
                               Inl x \<Rightarrow> Inl x
                             | Inr s2 \<Rightarrow> endPlayerTurn s2)) of
                    Inl (e, s') \<Rightarrow> Inr (False, s')
                  | Inr s3 \<Rightarrow> Inr (True, s3))))"

definition attemptFlee :: "combat \<Rightarrow> (bool \<times> combat) outcome" where
  "attemptFlee s =
     (if \<not> allowFlee s then Inr (False, s)
      else (let (r, s1) = random s
            in if r < 0.7 then
                 (case endCombat False ''Player fled'' s1 of
                    Inl x \<Rightarrow> Inl x
                  | Inr s2 \<Rightarrow> Inr (True, s2))
               else
                 (case endPlayerTurn s1 of
                    Inl x \<Rightarrow> Inl x
                  | Inr s2 \<Rightarrow> Inr (False, s2))))"

subsection \<open>The enemy's actions\<close>

definition getEnemyBasicAttack :: "entity \<Rightarrow> skill" where
  "getEnemyBasicAttack en =
     emptySkill\<lparr>skill_name := ''Attack'', damage := jor (attack en) (Num 10),
                manaCost := Num 0, cooldown := Num 0, currentCooldown := Num 0,
                skill_type := ''physical'', scalingFactor := Num 0.1,
                criticalChance := Num 0.1, accuracy := Num 0.9\<rparr>"

definition getBossSkill :: "string \<Rightarrow> skill option" where
  "getBossSkill skillName =
     map_of
       [(''nature_heal'',
           emptySkill\<lparr>skill_name := ''Nature'' @ [CHR 0x27] @ ''s Blessing'', healing := Num 50,
                      manaCost := Num 0, cooldown := Num 3, currentCooldown := Num 0,
                      skill_type := ''magic'', scalingFactor := Num 0.5\<rparr>),
        (''root_entangle'',
           emptySkill\<lparr>skill_name := ''Root Entangle'', damage := Num 25,
                      skill_effects := [\<lparr>eff_type = ''stunned'', eff_duration = Num 1,
                                         eff_chance = Num 0.8\<rparr>],
                      manaCost := Num 0, cooldown := Num 4, currentCooldown := Num 0,
                      skill_type := ''nature''\<rparr>),
        (''ice_storm'',
           emptySkill\<lparr>skill_name := ''Ice Storm'', damage := Num 40,
                      skill_effects := [\<lparr>eff_type = ''frozen'', eff_duration = Num 1,
                                         eff_chance = Num 0.4\<rparr>],
                      manaCost := Num 0, cooldown := Num 5, currentCooldown := Num 0,
                      skill_type := ''magic''\<rparr>)] skillName"

text \<open>
  The actions \<open>chooseEnemyAction\<close> builds: \<open>attack\<close>, \<open>special\<close>, \<open>buff\<close> and \<open>debuff\<close> carry
  a skill object built for the action and share one branch of \<open>executeEnemyAction\<close>.
\<close>

datatype action = SkillAction skill | Defend | Heal

text \<open>
  \<open>executeEnemyAction(action)\<close>. Its caller \<open>executeEnemyTurn\<close> has read
  \<open>this.enemy.statusEffects\<close> before, so \<open>this.enemy\<close> is an object; were it \<open>null\<close>, every
  branch would raise, which the model does at once.
\<close>

definition executeEnemyAction :: "action \<Rightarrow> combat \<Rightarrow> combat outcome" where
  "executeEnemyAction act s =
     (case enemy s of
        None \<Rightarrow> Inl (TypeError, s)
      | Some ew \<Rightarrow>
          (case act of
             SkillAction sk \<Rightarrow>
               (case executeSkill ew (player s) sk None s of
                  Inl x \<Rightarrow> Inl x
                | Inr (res, s1) \<Rightarrow> applySkillResult res s1)
           | Defend \<Rightarrow> Inr (applyStatusEffect ew ''defense_boost'' (Num 1) s)
           | Heal \<Rightarrow> Inr (healEntity ew (jfloor (jmul (maxHp (obj s ew)) (Num 0.2))) s)))"

subsection \<open>Starting a combat\<close>

definition initializeBoss :: "entity \<Rightarrow> entity" where
  "initializeBoss en =
     (case bossPhases (etype en) of
        None \<Rightarrow> en
      | Some ps \<Rightarrow>
          en\<lparr>bossData := Some \<lparr>phases = ps, currentPhase = 0, triggeredPhases = {}\<rparr>\<rparr>)
     \<lparr>statusResistance := Num 0.5, criticalResistance := Num 0.3\<rparr>"

text \<open>
  \<open>startCombat(player, enemy, options)\<close>: the two entities are cloned into the session's
  store (\<open>cloneEntity\<close>, a JSON round trip, copies every property these records hold)
  and get empty status-effect maps; \<open>options\<close> overrides \<open>this.combatOptions\<close> key by
  key; the faster side moves first, the player on a tie. \<open>s\<close> is the engine before the
  call. The promise the call returns is pending: \<open>combatResolve\<close> holds its resolver.
  The calls into the user interface and the log return nothing the engine reads and
  are left out, here and below.
\<close>

definition startCombat ::
  "entity \<Rightarrow> entity \<Rightarrow> bool option \<Rightarrow> bool option \<Rightarrow> combat \<Rightarrow> combat" where
  "startCombat pl en isBossOpt allowFleeOpt s =
     (let boss = (case isBossOpt of None \<Rightarrow> optIsBoss s | Some b \<Rightarrow> b);
          flee = (case allowFleeOpt of None \<Rightarrow> allowFlee s | Some b \<Rightarrow> b);
          pl1 = pl\<lparr>statusEffects := []\<rparr>;
          en1 = en\<lparr>statusEffects := []\<rparr>;
          en2 = (if boss then initializeBoss en1 else en1)
      in s\<lparr>heapPlayer := pl1, heapEnemy := en2, player := Some P, enemy := Some E,
            optIsBoss := boss, allowFlee := flee, isActive := True,
            currentTurn := (if jgt (speed en2) (speed pl1) then EnemyTurn else PlayerTurn),
            turnCounter := 1, combatResolve := True, resolved := None\<rparr>)"

text \<open>The engine as its constructor leaves it, reading its draws from \<open>rs\<close>.\<close>

definition newCombat :: "(nat \<Rightarrow> real) \<Rightarrow> combat" where
  "newCombat rs =
     \<lparr>isActive = False, currentTurn = PlayerTurn, turnCounter = 0,
      heapPlayer = emptyObject, heapEnemy = emptyObject, player = None, enemy = None,
      optIsBoss = False, allowFlee = True, combatResolve = False, resolved = None,
      draws = rs, cursor = 0\<rparr>"

section \<open>Characters (\<open>class Entities\<close> in \<open>src/js/game/persistence.js\<close>)\<close>

record class_template =
  ct_name :: string
  ct_baseStats :: stats
  ct_growthRates :: stats
  baseHealth :: jsnum
  baseMana :: jsnum
  healthPerLevel :: jsnum
  manaPerLevel :: jsnum
  ct_skills :: "string list"

definition mkStats :: "real \<Rightarrow> real \<Rightarrow> real \<Rightarrow> real \<Rightarrow> stats" where
  "mkStats s a i v =
     \<lparr>st_strength = Num s, st_agility = Num a, st_intelligence = Num i, st_vitality = Num v\<rparr>"

text \<open>\<open>this.classTemplates\<close>.\<close>

definition classTemplates :: "string \<Rightarrow> class_template option" where
  "classTemplates k =
     map_of
       [(''warrior'',
           \<lparr>ct_name = ''Warrior'', ct_baseStats = mkStats 15 8 5 12,
            ct_growthRates = mkStats 2.5 1.2 0.8 2.0,
            baseHealth = Num 100, baseMana = Num 30,
            healthPerLevel = Num 15, manaPerLevel = Num 3,
            ct_skills = [''slash'', ''shield_bash'', ''defensive_stance'', ''charge'',
                         ''whirlwind'', ''taunt'', ''berserker_rage'', ''guardian_strike'']\<rparr>),
        (''mage'',
           \<lparr>ct_name = ''Mage'', ct_baseStats = mkStats 5 7 15 8,
            ct_growthRates = mkStats 0.8 1.5 2.8 1.2,
            baseHealth = Num 60, baseMana = Num 80,
            healthPerLevel = Num 8, manaPerLevel = Num 12,
            ct_skills = [''magic_missile'', ''fireball'', ''ice_shard'', ''lightning_bolt'',
                         ''meteor'', ''teleport'', ''mana_shield'', ''elemental_mastery'']\<rparr>),
        (''rogue'',
           \<lparr>ct_name = ''Rogue'', ct_baseStats = mkStats 10 15 8 7,
            ct_growthRates = mkStats 1.8 2.5 1.3 1.0,
            baseHealth = Num 70, baseMana = Num 50,
            healthPerLevel = Num 10, manaPerLevel = Num 7,
            ct_skills = [''backstab'', ''poison_blade'', ''stealth'', ''throwing_knife'',
                         ''shadow_step'', ''evasion'', ''assassinate'', ''smoke_bomb'']\<rparr>),
        (''healer'',
           \<lparr>ct_name = ''Healer'', ct_baseStats = mkStats 6 9 12 13,
            ct_growthRates = mkStats 1.0 1.5 2.2 2.3,
            baseHealth = Num 80, baseMana = Num 70,
            healthPerLevel = Num 12, manaPerLevel = Num 10,
            ct_skills = [''heal'', ''greater_heal'', ''blessing'', ''purify'',
                         ''divine_shield'', ''resurrection'', ''holy_light'', ''sanctuary'']\<rparr>)] k"

definition mkRoll :: "string \<Rightarrow> real \<Rightarrow> real \<Rightarrow> status_roll" where
  "mkRoll t d c = \<lparr>eff_type = t, eff_duration = Num d, eff_chance = Num c\<rparr>"

text \<open>
  \<open>this.skillTemplates\<close>: of each template the properties the engines read (description,
  icon and the \<open>areaEffect\<close> flag are read nowhere).
\<close>

definition skillTemplates :: "string \<Rightarrow> skill option" where
  "skillTemplates k =
     map_of
       [
        (''slash'',
           emptySkill\<lparr>skill_name := ''Slash'', manaCost := Num 0, cooldown := Num 0,
                      damage := Num 25, skill_type := ''physical'', scalingFactor := Num 1.2,
                      criticalChance := Num 0.15, accuracy := Num 0.95\<rparr>),
        (''shield_bash'',
           emptySkill\<lparr>skill_name := ''Shield Bash'', manaCost := Num 10,
                      cooldown := Num 2, damage := Num 15, skill_type := ''physical'',
                      scalingFactor := Num 0.8, accuracy := Num 0.9,
                      skill_effects := [mkRoll ''stunned'' 1 0.3]\<rparr>),
        (''defensive_stance'',
           emptySkill\<lparr>skill_name := ''Defensive Stance'', manaCost := Num 15,
                      cooldown := Num 4, damage := Num 0, skill_type := ''buff'',
                      skill_effects := [mkRoll ''defense_boost'' 3 1.0]\<rparr>),
        (''charge'',
           emptySkill\<lparr>skill_name := ''Charge'', manaCost := Num 20, cooldown := Num 3,
                      damage := Num 40, skill_type := ''physical'', scalingFactor := Num 1.5,
                      criticalChance := Num 0.25, accuracy := Num 0.85\<rparr>),
        (''whirlwind'',
           emptySkill\<lparr>skill_name := ''Whirlwind'', manaCost := Num 25,
                      cooldown := Num 4, damage := Num 30, skill_type := ''physical'',
                      scalingFactor := Num 1.0, accuracy := Num 0.9\<rparr>),
        (''taunt'',
           emptySkill\<lparr>skill_name := ''Taunt'', manaCost := Num 5, cooldown := Num 2,
                      damage := Num 0, skill_type := ''debuff'',
                      skill_effects := [mkRoll ''taunted'' 2 0.8]\<rparr>),
        (''berserker_rage'',
           emptySkill\<lparr>skill_name := ''Berserker Rage'', manaCost := Num 30,
                      cooldown := Num 6, damage := Num 0, skill_type := ''buff'',
                      skill_effects := [mkRoll ''strength_boost'' 4 1.0, mkRoll ''defense_weakness'' 4 1.0]\<rparr>),
        (''guardian_strike'',
           emptySkill\<lparr>skill_name := ''Guardian Strike'', manaCost := Num 35,
                      cooldown := Num 5, damage := Num 35, healing := Num 20,
                      skill_type := ''physical'', scalingFactor := Num 1.3,
                      criticalChance := Num 0.2\<rparr>),
        (''magic_missile'',
           emptySkill\<lparr>skill_name := ''Magic Missile'', manaCost := Num 8,
                      cooldown := Num 0, damage := Num 20, skill_type := ''magic'',
                      scalingFactor := Num 1.5, accuracy := Num 0.98\<rparr>),
        (''fireball'',
           emptySkill\<lparr>skill_name := ''Fireball'', manaCost := Num 20, cooldown := Num 2,
                      damage := Num 35, skill_type := ''magic'', scalingFactor := Num 1.8,
                      skill_effects := [mkRoll ''burning'' 2 0.4]\<rparr>),
        (''ice_shard'',
           emptySkill\<lparr>skill_name := ''Ice Shard'', manaCost := Num 15,
                      cooldown := Num 1, damage := Num 25, skill_type := ''magic'',
                      scalingFactor := Num 1.4,
                      skill_effects := [mkRoll ''slow'' 2 0.5]\<rparr>),
        (''lightning_bolt'',
           emptySkill\<lparr>skill_name := ''Lightning Bolt'', manaCost := Num 25,
                      cooldown := Num 3, damage := Num 40, skill_type := ''magic'',
                      scalingFactor := Num 1.6, criticalChance := Num 0.3,
                      accuracy := Num 1.0\<rparr>),
        (''meteor'',
           emptySkill\<lparr>skill_name := ''Meteor'', manaCost := Num 45, cooldown := Num 6,
                      damage := Num 60, skill_type := ''magic'', scalingFactor := Num 2.0,
                      accuracy := Num 0.8\<rparr>),
        (''teleport'',
           emptySkill\<lparr>skill_name := ''Teleport'', manaCost := Num 20, cooldown := Num 4,
                      damage := Num 0, skill_type := ''utility'',
                      skill_effects := [mkRoll ''evasion_boost'' 2 1.0]\<rparr>),
        (''mana_shield'',
           emptySkill\<lparr>skill_name := ''Mana Shield'', manaCost := Num 30,
                      cooldown := Num 5, damage := Num 0, skill_type := ''buff'',
                      skill_effects := [mkRoll ''mana_shield'' 4 1.0]\<rparr>),
        (''elemental_mastery'',
           emptySkill\<lparr>skill_name := ''Elemental Mastery'', manaCost := Num 40,
                      cooldown := Num 7, damage := Num 0, skill_type := ''buff'',
                      skill_effects := [mkRoll ''elemental_boost'' 5 1.0]\<rparr>),
        (''backstab'',
           emptySkill\<lparr>skill_name := ''Backstab'', manaCost := Num 10, cooldown := Num 1,
                      damage := Num 20, skill_type := ''physical'', scalingFactor := Num 1.3,
                      criticalChance := Num 0.5, accuracy := Num 0.9\<rparr>),
        (''poison_blade'',
           emptySkill\<lparr>skill_name := ''Poison Blade'', manaCost := Num 15,
                      cooldown := Num 2, damage := Num 18, skill_type := ''physical'',
                      scalingFactor := Num 1.0,
                      skill_effects := [mkRoll ''poison'' 4 0.8]\<rparr>),
        (''stealth'',
           emptySkill\<lparr>skill_name := ''Stealth'', manaCost := Num 20, cooldown := Num 4,
                      damage := Num 0, skill_type := ''buff'',
                      skill_effects := [mkRoll ''stealth'' 3 1.0]\<rparr>),
        (''throwing_knife'',
           emptySkill\<lparr>skill_name := ''Throwing Knife'', manaCost := Num 12,
                      cooldown := Num 1, damage := Num 22, skill_type := ''ranged'',
                      scalingFactor := Num 1.1, accuracy := Num 0.95,
                      skill_effects := [mkRoll ''bleeding'' 3 0.6]\<rparr>),
        (''shadow_step'',
           emptySkill\<lparr>skill_name := ''Shadow Step'', manaCost := Num 25,
                      cooldown := Num 3, damage := Num 30, skill_type := ''physical'',
                      scalingFactor := Num 1.4, criticalChance := Num 0.3,
                      accuracy := Num 1.0\<rparr>),
        (''evasion'',
           emptySkill\<lparr>skill_name := ''Evasion'', manaCost := Num 18, cooldown := Num 3,
                      damage := Num 0, skill_type := ''buff'',
                      skill_effects := [mkRoll ''speed_boost'' 3 1.0]\<rparr>),
        (''assassinate'',
           emptySkill\<lparr>skill_name := ''Assassinate'', manaCost := Num 40,
                      cooldown := Num 6, damage := Num 80, skill_type := ''physical'',
                      scalingFactor := Num 2.0, criticalChance := Num 0.7,
                      accuracy := Num 0.8\<rparr>),
        (''smoke_bomb'',
           emptySkill\<lparr>skill_name := ''Smoke Bomb'', manaCost := Num 30,
                      cooldown := Num 5, damage := Num 0, skill_type := ''debuff'',
                      skill_effects := [mkRoll ''blinded'' 2 0.9, mkRoll ''stealth'' 2 1.0]\<rparr>),
        (''heal'',
           emptySkill\<lparr>skill_name := ''Heal'', manaCost := Num 15, cooldown := Num 0,
                      damage := Num 0, healing := Num 35, skill_type := ''magic'',
                      scalingFactor := Num 1.5\<rparr>),
        (''greater_heal'',
           emptySkill\<lparr>skill_name := ''Greater Heal'', manaCost := Num 30,
                      cooldown := Num 2, damage := Num 0, healing := Num 70,
                      skill_type := ''magic'', scalingFactor := Num 2.0\<rparr>),
        (''blessing'',
           emptySkill\<lparr>skill_name := ''Blessing'', manaCost := Num 25, cooldown := Num 4,
                      damage := Num 0, skill_type := ''buff'',
                      skill_effects := [mkRoll ''blessed'' 4 1.0]\<rparr>),
        (''purify'',
           emptySkill\<lparr>skill_name := ''Purify'', manaCost := Num 20, cooldown := Num 3,
                      damage := Num 0, skill_type := ''utility'',
                      skill_effects := [mkRoll ''purified'' 1 1.0]\<rparr>),
        (''divine_shield'',
           emptySkill\<lparr>skill_name := ''Divine Shield'', manaCost := Num 40,
                      cooldown := Num 6, damage := Num 0, skill_type := ''buff'',
                      skill_effects := [mkRoll ''divine_shield'' 2 1.0]\<rparr>),
        (''resurrection'',
           emptySkill\<lparr>skill_name := ''Resurrection'', manaCost := Num 50,
                      cooldown := Num 10, damage := Num 0, skill_type := ''utility'',
                      skill_effects := [mkRoll ''resurrection'' 10 1.0]\<rparr>),
        (''holy_light'',
           emptySkill\<lparr>skill_name := ''Holy Light'', manaCost := Num 35,
                      cooldown := Num 4, damage := Num 50, healing := Num 25,
                      skill_type := ''magic'', scalingFactor := Num 1.8\<rparr>),
        (''sanctuary'',
           emptySkill\<lparr>skill_name := ''Sanctuary'', manaCost := Num 45,
                      cooldown := Num 7, damage := Num 0, healing := Num 15,
                      skill_type := ''magic'',
                      skill_effects := [mkRoll ''regeneration'' 5 1.0]\<rparr>)] k"

text \<open>
  \<open>this.factionBonuses\<close>: of each faction the \<open>defenseBonus\<close> of its bonuses, the one
  bonus that is read; \<open>NaN\<close> for a faction whose bonuses have none.
\<close>

definition factionBonuses :: "string \<Rightarrow> jsnum option" where
  "factionBonuses k =
     map_of [(''order'', Num 1.15), (''shadow'', NaN), (''nature'', NaN)] k"

text \<open>
  \<open>createCharacterSkills(className)\<close>: a copy of each template that exists, with
  \<open>currentCooldown: 0\<close> and \<open>unlocked: true\<close>.
\<close>

definition createCharacterSkills :: "class_template \<Rightarrow> skill list" where
  "createCharacterSkills ct =
     map (\<lambda>sk. sk\<lparr>currentCooldown := Num 0, unlocked := True\<rparr>)
         (List.map_filter skillTemplates (ct_skills ct))"

definition applyFactionBonuses :: "entity \<Rightarrow> string \<Rightarrow> entity" where
  "applyFactionBonuses character factionName =
     (case factionBonuses factionName of
        None \<Rightarrow> character
      | Some bonus \<Rightarrow>
          (let c1 = character\<lparr>defenseBonus := bonus\<rparr>
           in if truthy bonus then c1\<lparr>defense := jfloor (jmul (defense c1) bonus)\<rparr> else c1))"

text \<open>\<open>createCharacter(className, factionName)\<close>; an unknown class raises.\<close>

definition createCharacter :: "string \<Rightarrow> string \<Rightarrow> error + entity" where
  "createCharacter cls factionName =
     (case classTemplates cls of
        None \<Rightarrow> Inl UnknownClass
      | Some ct \<Rightarrow>
          (let b = ct_baseStats ct;
               character = emptyObject
                 \<lparr>name := ct_name ct, className := cls, level := Num 1, experience := Num 0,
                  experienceToNext := Num 100, baseStats := b,
                  strength := st_strength b, agility := st_agility b,
                  intelligence := st_intelligence b, vitality := st_vitality b,
                  maxHealth := jadd (baseHealth ct) (jmul (st_vitality b) (Num 5)),
                  maxMana := jadd (baseMana ct) (jmul (st_intelligence b) (Num 3)),
                  attack := st_strength b,
                  defense := jfloor (jmul (st_vitality b) (Num 0.8)),
                  speed := st_agility b, hp := Num 0, mana := Num 0,
                  skills := createCharacterSkills ct, statusEffects := [],
                  growthRates := ct_growthRates ct\<rparr>;
               c1 = character\<lparr>hp := maxHealth character, mana := maxMana character\<rparr>
           in Inr (applyFactionBonuses c1 factionName)))"

definition recalculateCharacterStats :: "entity \<Rightarrow> entity" where
  "recalculateCharacterStats c =
     (let c1 = c\<lparr>attack := jadd (strength c) (jfloor (jmul (level c) (Num 0.5))),
                  defense := jadd (jfloor (jmul (vitality c) (Num 0.8)))
                                  (jfloor (jmul (level c) (Num 0.3))),
                  speed := jadd (agility c) (jfloor (jmul (level c) (Num 0.2)))\<rparr>
      in if truthy (defenseBonus c1)
         then c1\<lparr>defense := jfloor (jmul (defense c1) (defenseBonus c1))\<rparr> else c1)"

definition checkSkillUnlocks :: "entity \<Rightarrow> entity" where
  "checkSkillUnlocks c =
     c\<lparr>skills :=
         map (\<lambda>sk. if \<not> unlocked sk \<and> jge (level c) (jor (requiredLevel sk) (Num 1))
                    then sk\<lparr>unlocked := True\<rparr> else sk)
             (skills c)\<rparr>"

text \<open>
  \<open>levelUpCharacter(character)\<close>. The loop over \<open>Object.keys(character.growthRates)\<close>
  takes one draw for each of the four stats, in the order strength, agility,
  intelligence, vitality; \<open>rs\<close> is the sequence of draws and \<open>k\<close> the cursor. The class
  is looked up after the stats have grown, and \<open>classTemplate.healthPerLevel\<close> raises
  when the character's class is not in the catalog.
\<close>

definition levelUpCharacter :: "entity \<Rightarrow> (nat \<Rightarrow> real) \<Rightarrow> nat \<Rightarrow> error + entity \<times> nat" where
  "levelUpCharacter c rs k =
     (let c1 = c\<lparr>level := jadd (level c) (Num 1),
                  experience := jsub (experience c) (experienceToNext c),
                  experienceToNext := jfloor (jmul (experienceToNext c) (Num 1.2))\<rparr>;
          g = growthRates c1;
          iS = jfloor (jadd (st_strength g) (Num (rs k)));
          iA = jfloor (jadd (st_agility g) (Num (rs (k + 1))));
          iI = jfloor (jadd (st_intelligence g) (Num (rs (k + 2))));
          iV = jfloor (jadd (st_vitality g) (Num (rs (k + 3))));
          b = baseStats c1;
          c2 = c1\<lparr>baseStats := \<lparr>st_strength = jadd (st_strength b) iS,
                                  st_agility = jadd (st_agility b) iA,
                                  st_intelligence = jadd (st_intelligence b) iI,
                                  st_vitality = jadd (st_vitality b) iV\<rparr>,
                   strength := jadd (strength c1) iS, agility := jadd (agility c1) iA,
                   intelligence := jadd (intelligence c1) iI,
                   vitality := jadd (vitality c1) iV\<rparr>
      in case classTemplates (className c2) of
           None \<Rightarrow> Inl TypeError
         | Some ct \<Rightarrow>
             (let healthIncrease = jadd (healthPerLevel ct) (jfloor (jmul (vitality c2) (Num 0.5)));
                  manaIncrease = jadd (manaPerLevel ct) (jfloor (jmul (intelligence c2) (Num 0.3)));
                  c3 = c2\<lparr>maxHealth := jadd (maxHealth c2) healthIncrease,
                           maxMana := jadd (maxMana c2) manaIncrease,
                           hp := jadd (hp c2) healthIncrease,
                           mana := jadd (mana c2) manaIncrease\<rparr>
              in Inr (checkSkillUnlocks (recalculateCharacterStats c3), k + 4)))"

text \<open>
  The \<open>while\<close> loop of \<open>addExperienceToCharacter\<close>. Nothing in the source bounds it, so it
  is a partial function: \<open>None\<close> is the loop that never ends.
\<close>

partial_function (option) levelUpLoop ::
  "entity \<Rightarrow> (nat \<Rightarrow> real) \<Rightarrow> nat \<Rightarrow> (error + entity \<times> nat) option" where
  "levelUpLoop c rs k =
     (if jge (experience c) (experienceToNext c) then
        (case levelUpCharacter c rs k of
           Inl e \<Rightarrow> Some (Inl e)
         | Inr (c', k') \<Rightarrow> levelUpLoop c' rs k')
      else Some (Inr (c, k)))"

definition addExperienceToCharacter ::
  "entity \<Rightarrow> jsnum \<Rightarrow> (nat \<Rightarrow> real) \<Rightarrow> nat \<Rightarrow> (error + entity \<times> nat) option" where
  "addExperienceToCharacter c amount rs k =
     levelUpLoop (c\<lparr>experience := jadd (experience c) amount\<rparr>) rs k"

section \<open>The map generator (\<open>class MapGenerator\<close>)\<close>

text \<open>
  A region template, without the texts shown to the player (description, colour, icon).
\<close>

record region_template =
  rt_name :: string
  enemyPool :: "string list"
  bossPool :: "string list"
  resourcePool :: "string list"
  eventPool :: "string list"
  rt_difficulty :: real

text \<open>\<open>this.regions\<close>, in the order of its keys.\<close>

definition regions :: "(string \<times> region_template) list" where
  "regions =
     [(''forest'',
         \<lparr>rt_name = ''Whispering Forest'',
          enemyPool = [''goblin'', ''wolf'', ''spider'', ''treant''],
          bossPool = [''forest_guardian'', ''elder_treant''],
          resourcePool = [''herbs'', ''wood''],
          eventPool = [''fairy_ring'', ''abandoned_camp'', ''ancient_tree''],
          rt_difficulty = 1.0\<rparr>),
      (''desert'',
         \<lparr>rt_name = ''Scorching Wastes'',
          enemyPool = [''scorpion'', ''bandit'', ''sand_wraith'', ''mummy''],
          bossPool = [''desert_king'', ''sand_dragon''],
          resourcePool = [''ore'', ''gems''],
          eventPool = [''oasis'', ''buried_treasure'', ''sandstorm''],
          rt_difficulty = 1.2\<rparr>),
      (''ice'',
         \<lparr>rt_name = ''Frozen Peaks'',
          enemyPool = [''ice_wolf'', ''frost_giant'', ''ice_elemental'', ''yeti''],
          bossPool = [''ice_queen'', ''frost_dragon''],
          resourcePool = [''ice_crystal'', ''frost_herb''],
          eventPool = [''ice_cave'', ''frozen_lake'', ''avalanche''],
          rt_difficulty = 1.4\<rparr>),
      (''ruins'',
         \<lparr>rt_name = ''Ancient Ruins'',
          enemyPool = [''skeleton'', ''ghost'', ''gargoyle'', ''lich''],
          bossPool = [''ancient_king'', ''shadow_lord''],
          resourcePool = [''essences'', ''ancient_relic''],
          eventPool = [''magic_altar'', ''trapped_chest'', ''spirit_encounter''],
          rt_difficulty = 1.6\<rparr>)]"

text \<open>
  \<open>this.nodeTypes\<close>: the spawn weight of each of its six node types. The weights are the
  one part of the content tables the generator writes to, so they are state.
\<close>

record node_weights =
  w_combat :: real
  w_event :: real
  w_resource :: real
  w_merchant :: real
  w_rest :: real
  w_boss :: real

definition initialNodeTypes :: node_weights where
  "initialNodeTypes =
     \<lparr>w_combat = 40, w_event = 25, w_resource = 20, w_merchant = 10, w_rest = 15, w_boss = 0\<rparr>"

text \<open>\<open>this.nodeTypes[nodeType].name\<close>.\<close>

definition nodeTypeName :: "string \<Rightarrow> string" where
  "nodeTypeName k =
     (case map_of [(''combat'', ''Combat''), (''event'', ''Event''), (''resource'', ''Resource''),
                   (''merchant'', ''Merchant''), (''rest'', ''Rest Site''), (''boss'', ''Boss'')] k of
        None \<Rightarrow> []
      | Some n \<Rightarrow> n)"

record mapgen =
  nodeTypes :: node_weights
  mg_draws :: "nat \<Rightarrow> real"
  mg_cursor :: nat

definition newMapGenerator :: "(nat \<Rightarrow> real) \<Rightarrow> mapgen" where
  "newMapGenerator rs = \<lparr>nodeTypes = initialNodeTypes, mg_draws = rs, mg_cursor = 0\<rparr>"

definition mgRandom :: "mapgen \<Rightarrow> real \<times> mapgen" where
  "mgRandom mg = (mg_draws mg (mg_cursor mg), mg\<lparr>mg_cursor := Suc (mg_cursor mg)\<rparr>)"

text \<open>
  The payload of a node. An event is its title (its description and choices are fixed
  by the title), a merchant the number of its items and the price multiplier, a rest
  site its name.
\<close>

datatype payload =
    EnemyPayload entity
  | EventPayload string
  | ResourcePayload "string option" int
  | MerchantPayload int real
  | RestPayload "string option"
  | BossPayload entity
  | NoPayload

record node =
  ntype :: string
  nname :: string
  ndifficulty :: real
  npayload :: payload
  visited :: bool
  completed :: bool
  regionKey :: string
  localIndex :: nat
  globalIndex :: "nat option"
  regionIndex :: "nat option"

record region =
  rkey :: string
  rname :: string
  rindex :: nat
  rlength :: int
  rdifficulty :: real
  rnodes :: "node list"

record run_map =
  rm_regions :: "region list"
  rm_nodes :: "node list"
  totalNodes :: nat
  estimatedDifficulty :: real

subsection \<open>Weighted choice of a node type\<close>

text \<open>The \<open>for\<close> loop of \<open>weightedRandomChoice\<close> over the entries, \<open>x\<close> being \<open>random\<close>.\<close>

fun pickWeighted :: "(string \<times> real) list \<Rightarrow> real \<Rightarrow> string option" where
  "pickWeighted [] x = None"
| "pickWeighted ((k, w) # es) x = (if x - w \<le> 0 then Some k else pickWeighted es (x - w))"

text \<open>
  \<open>weightedRandomChoice(weights)\<close> on the entries of the weights object, with the draw
  \<open>r\<close>; the fallback is the first key (\<open>undefined\<close> for an object with no key).
\<close>

definition weightedRandomChoice :: "(string \<times> real) list \<Rightarrow> real \<Rightarrow> string option" where
  "weightedRandomChoice ws r =
     (let totalWeight = sum_list (map snd ws)
      in case pickWeighted ws (r * totalWeight) of
           Some k \<Rightarrow> Some k
         | None \<Rightarrow> (case ws of [] \<Rightarrow> None | e # es \<Rightarrow> Some (fst e)))"

definition weightEntries :: "node_weights \<Rightarrow> (string \<times> real) list" where
  "weightEntries w =
     [(''combat'', w_combat w), (''event'', w_event w), (''resource'', w_resource w),
      (''merchant'', w_merchant w), (''rest'', w_rest w), (''boss'', w_boss w)]"

text \<open>
  \<open>selectNodeType(nodeIndex, regionLength)\<close>. The spread \<open>{ ...this.nodeTypes }\<close> copies
  the six references, not the six objects: \<open>weights.combat\<close> is \<open>this.nodeTypes.combat\<close>,
  and every \<open>*=\<close> below writes to the generator's own table.
\<close>

definition selectNodeType :: "nat \<Rightarrow> int \<Rightarrow> mapgen \<Rightarrow> string option \<times> mapgen" where
  "selectNodeType nodeIndex regionLength mg =
     (let w0 = nodeTypes mg;
          w1 = (if nodeIndex = 0
                then w0\<lparr>w_combat := w_combat w0 * 1.5, w_event := w_event w0 * 1.2,
                        w_rest := w_rest w0 * 0.5\<rparr>
                else w0);
          w2 = (if nodeIndex > 0 \<and> int nodeIndex < regionLength - 2
                then w1\<lparr>w_merchant := w_merchant w1 * 1.5, w_resource := w_resource w1 * 1.3\<rparr>
                else w1);
          w3 = (if int nodeIndex \<ge> regionLength - 2
                then w2\<lparr>w_merchant := w_merchant w2 * 0.3, w_combat := w_combat w2 * 1.3\<rparr>
                else w2);
          (r, mg1) = mgRandom (mg\<lparr>nodeTypes := w3\<rparr>)
      in (weightedRandomChoice (weightEntries w3) r, mg1))"

subsection \<open>Node payloads\<close>

text \<open>An enemy template: name, hp, attack, defense, speed.\<close>

definition enemyTemplates :: "string \<Rightarrow> (string \<times> real \<times> real \<times> real \<times> real) option" where
  "enemyTemplates k =
     map_of
       [(''goblin'', (''Goblin Scout'', 35, 8, 2, 6)),
        (''wolf'', (''Forest Wolf'', 45, 12, 4, 8)),
        (''spider'', (''Giant Spider'', 30, 10, 1, 7)),
        (''treant'', (''Young Treant'', 70, 15, 8, 3)),
        (''scorpion'', (''Desert Scorpion'', 40, 14, 6, 5)),
        (''bandit'', (''Desert Bandit'', 50, 11, 3, 6)),
        (''sand_wraith'', (''Sand Wraith'', 35, 16, 2, 9)),
        (''mummy'', (''Ancient Mummy'', 60, 13, 7, 4)),
        (''ice_wolf'', (''Frost Wolf'', 55, 14, 5, 7)),
        (''frost_giant'', (''Frost Giant'', 90, 20, 12, 2)),
        (''ice_elemental'', (''Ice Elemental'', 40, 18, 3, 8)),
        (''yeti'', (''Mountain Yeti'', 75, 16, 10, 5)),
        (''skeleton'', (''Ancient Skeleton'', 45, 12, 8, 4)),
        (''ghost'', (''Restless Ghost'', 30, 20, 1, 10)),
        (''gargoyle'', (''Stone Gargoyle'', 80, 18, 15, 3)),
        (''lich'', (''Minor Lich'', 65, 22, 6, 6))] k"

text \<open>A boss template: name, hp, attack, defense, speed (its ability names are read nowhere).\<close>

definition bossTemplates :: "string \<Rightarrow> (string \<times> real \<times> real \<times> real \<times> real) option" where
  "bossTemplates k =
     map_of
       [(''forest_guardian'', (''Forest Guardian'', 150, 25, 15, 5)),
        (''elder_treant'', (''Elder Treant'', 200, 30, 20, 3)),
        (''desert_king'', (''Desert King'', 180, 28, 12, 6)),
        (''sand_dragon'', (''Sand Dragon'', 250, 35, 18, 7)),
        (''ice_queen'', (''Ice Queen'', 220, 32, 16, 4)),
        (''frost_dragon'', (''Frost Dragon'', 300, 40, 22, 6)),
        (''ancient_king'', (''Ancient King'', 280, 38, 25, 5)),
        (''shadow_lord'', (''Shadow Lord'', 200, 45, 10, 9))] k"

text \<open>
  The scaled stat block both generators build; \<open>ty\<close> is the chosen key, \<open>undefined\<close> when
  the choice fell outside the pool (the object then has no usable \<open>type\<close>, here \<open>[]\<close>).
\<close>

definition scaledEntity ::
  "(string \<times> real \<times> real \<times> real \<times> real) \<Rightarrow> real \<Rightarrow> real \<Rightarrow> string option \<Rightarrow> entity" where
  "scaledEntity tmpl d lvl ty =
     (case tmpl of (nm, h, a, df, sp) \<Rightarrow>
        emptyObject\<lparr>name := nm, hp := Num (of_int \<lfloor>h * d\<rfloor>), maxHp := Num (of_int \<lfloor>h * d\<rfloor>),
                    attack := Num (of_int \<lfloor>a * d\<rfloor>), defense := Num (of_int \<lfloor>df * d\<rfloor>),
                    speed := Num sp, level := Num lvl,
                    etype := (case ty of None \<Rightarrow> [] | Some t \<Rightarrow> t)\<rparr>)"

text \<open>\<open>generateEnemy\<close> after its draw: \<open>enemyType\<close> is the chosen key.\<close>

definition enemyOfType :: "string option \<Rightarrow> real \<Rightarrow> entity" where
  "enemyOfType enemyType d =
     (let template = (case Option.bind enemyType enemyTemplates of
                        None \<Rightarrow> (''Goblin Scout'', 35, 8, 2, 6)
                      | Some t \<Rightarrow> t)
      in scaledEntity template d (max 1 (of_int \<lfloor>d * 5\<rfloor>)) enemyType)"

definition generateEnemy :: "region_template \<Rightarrow> real \<Rightarrow> mapgen \<Rightarrow> entity \<times> mapgen" where
  "generateEnemy rt d mg =
     (let (r, mg1) = mgRandom mg
      in (enemyOfType (randomChoice (enemyPool rt) r) d, mg1))"

definition generateBoss :: "string option \<Rightarrow> real \<Rightarrow> entity" where
  "generateBoss bossType d =
     (let template = (case Option.bind bossType bossTemplates of
                        None \<Rightarrow> (''Forest Guardian'', 150, 25, 15, 5)
                      | Some t \<Rightarrow> t)
      in (scaledEntity template d (max 10 (of_int \<lfloor>d * 10\<rfloor>)) bossType)\<lparr>isBoss := True\<rparr>)"

text \<open>\<open>this.eventTemplates\<close>: the title of each event that has a template.\<close>

definition eventTemplates :: "string \<Rightarrow> string option" where
  "eventTemplates k =
     map_of [(''fairy_ring'', ''Fairy Ring''), (''abandoned_camp'', ''Abandoned Camp''),
             (''oasis'', ''Desert Oasis''), (''ice_cave'', ''Ice Cave''),
             (''magic_altar'', ''Ancient Altar'')] k"

definition generateEvent :: "region_template \<Rightarrow> mapgen \<Rightarrow> string \<times> mapgen" where
  "generateEvent rt mg =
     (let (r, mg1) = mgRandom mg
      in (case Option.bind (randomChoice (eventPool rt) r) eventTemplates of
            None \<Rightarrow> ''Strange Encounter''
          | Some title \<Rightarrow> title, mg1))"

definition generateResource :: "region_template \<Rightarrow> mapgen \<Rightarrow> (string option \<times> int) \<times> mapgen" where
  "generateResource rt mg =
     (let (r1, mg1) = mgRandom mg;
          resourceType = randomChoice (resourcePool rt) r1;
          (r2, mg2) = mgRandom mg1
      in ((resourceType, randomInt 2 5 r2), mg2))"

text \<open>\<open>generateMerchant\<close>: the item count is drawn first, then the price multiplier.\<close>

definition generateMerchant :: "mapgen \<Rightarrow> (int \<times> real) \<times> mapgen" where
  "generateMerchant mg =
     (let (r1, mg1) = mgRandom mg;
          itemCount = randomInt 3 6 r1;
          (r2, mg2) = mgRandom mg1
      in ((itemCount, r2 * (1.2 - 0.8) + 0.8), mg2))"

definition generateRestSite :: "mapgen \<Rightarrow> string option \<times> mapgen" where
  "generateRestSite mg =
     (let (r, mg1) = mgRandom mg
      in (randomChoice [''Campfire'', ''Natural Spring'', ''Ancient Shrine'', ''Peaceful Grove''] r,
          mg1))"

subsection \<open>Nodes, regions, the run\<close>

definition blankNode :: node where
  "blankNode =
     \<lparr>ntype = [], nname = [], ndifficulty = 0, npayload = NoPayload, visited = False,
      completed = False, regionKey = [], localIndex = 0, globalIndex = None,
      regionIndex = None\<rparr>"

text \<open>
  \<open>generateRegularNode\<close>. \<open>template.name\<close> raises for a node type that is \<open>undefined\<close>.
\<close>

definition generateRegularNode ::
  "region_template \<Rightarrow> real \<Rightarrow> nat \<Rightarrow> int \<Rightarrow> mapgen \<Rightarrow> error + node \<times> mapgen" where
  "generateRegularNode rt d nodeIndex regionLength mg =
     (case selectNodeType nodeIndex regionLength mg of
        (None, mg1) \<Rightarrow> Inl TypeError
      | (Some nodeType, mg1) \<Rightarrow>
          (let nd = blankNode\<lparr>ntype := nodeType, nname := nodeTypeName nodeType,
                               ndifficulty := d + real nodeIndex * 0.1\<rparr>
           in if nodeType = ''combat'' then
                (let (en, mg2) = generateEnemy rt (ndifficulty nd) mg1
                 in Inr (nd\<lparr>npayload := EnemyPayload en\<rparr>, mg2))
              else if nodeType = ''event'' then
                (let (ev, mg2) = generateEvent rt mg1
                 in Inr (nd\<lparr>npayload := EventPayload ev\<rparr>, mg2))
              else if nodeType = ''resource'' then
                (let ((ty, amount), mg2) = generateResource rt mg1
                 in Inr (nd\<lparr>npayload := ResourcePayload ty amount\<rparr>, mg2))
              else if nodeType = ''merchant'' then
                (let ((cnt, haggle), mg2) = generateMerchant mg1
                 in Inr (nd\<lparr>npayload := MerchantPayload cnt haggle\<rparr>, mg2))
              else if nodeType = ''rest'' then
                (let (rest, mg2) = generateRestSite mg1
                 in Inr (nd\<lparr>npayload := RestPayload rest\<rparr>, mg2))
              else Inr (nd, mg1)))"

definition generateBossNode :: "region_template \<Rightarrow> real \<Rightarrow> mapgen \<Rightarrow> node \<times> mapgen" where
  "generateBossNode rt d mg =
     (let (r, mg1) = mgRandom mg;
          bossTemplate = randomChoice (bossPool rt) r
      in (blankNode\<lparr>ntype := ''boss'', nname := ''Final Challenge'', ndifficulty := d * 1.5,
                    npayload := BossPayload (generateBoss bossTemplate (d * 1.5))\<rparr>, mg1))"

text \<open>
  The \<open>for\<close> loop of \<open>generateRegion\<close>, from node \<open>i\<close> on: the last node of the last
  region is the boss node, every other node a regular one.
\<close>

function generateNodes ::
  "string \<Rightarrow> region_template \<Rightarrow> real \<Rightarrow> bool \<Rightarrow> int \<Rightarrow> nat \<Rightarrow> mapgen \<Rightarrow> error + node list \<times> mapgen" where
  "generateNodes key rt d isLastRegion regionLength i mg =
     (if int i < regionLength then
        (let isLastNode = (int i = regionLength - 1);
             isBossNode = (isLastRegion \<and> isLastNode)
         in case (if isBossNode then Inr (generateBossNode rt d mg)
                  else generateRegularNode rt d i regionLength mg) of
              Inl e \<Rightarrow> Inl e
            | Inr (nd, mg1) \<Rightarrow>
                (case generateNodes key rt d isLastRegion regionLength (Suc i) mg1 of
                   Inl e \<Rightarrow> Inl e
                 | Inr (rest, mg2) \<Rightarrow> Inr (nd\<lparr>regionKey := key, localIndex := i\<rparr> # rest, mg2)))
      else Inr ([], mg))"
  by pat_completeness auto
termination
  by (relation "measure (\<lambda>(key, rt, d, isLastRegion, regionLength, i, mg). nat (regionLength - int i))")
     auto

declare generateNodes.simps [simp del]

text \<open>
  \<open>generateRegion(regionKey, regionIndex, totalRegions)\<close>; \<open>regionTemplate.name\<close> raises
  when the key is \<open>undefined\<close> or names no region.
\<close>

definition generateRegion :: "string option \<Rightarrow> nat \<Rightarrow> int \<Rightarrow> mapgen \<Rightarrow> error + region \<times> mapgen" where
  "generateRegion regionKeyOpt regionIdx totalRegions mg =
     (case Option.bind regionKeyOpt (\<lambda>k. map_option (Pair k) (map_of regions k)) of
        None \<Rightarrow> Inl TypeError
      | Some (key, rt) \<Rightarrow>
          (let isLastRegion = (int regionIdx = totalRegions - 1);
               (r, mg1) = mgRandom mg;
               baseLength = randomInt 4 7 r;
               regionLength = (if isLastRegion then baseLength + 1 else baseLength);
               d = rt_difficulty rt + real regionIdx * 0.2
           in case generateNodes key rt d isLastRegion regionLength 0 mg1 of
                Inl e \<Rightarrow> Inl e
              | Inr (nds, mg2) \<Rightarrow>
                  Inr (\<lparr>rkey = key, rname = rt_name rt, rindex = regionIdx,
                        rlength = regionLength, rdifficulty = d, rnodes = nds\<rparr>, mg2)))"

text \<open>
  The \<open>while\<close> loop of \<open>selectRegions\<close>. A choice outside the remaining keys pushes
  \<open>undefined\<close>.
\<close>

function selectLoop :: "int \<Rightarrow> string option list \<Rightarrow> mapgen \<Rightarrow> string option list \<times> mapgen" where
  "selectLoop count selectedRegions mg =
     (if count > 0 \<and> length regions > length selectedRegions then
        (let remaining = filter (\<lambda>r. Some r \<notin> set selectedRegions) (map fst regions);
             (r, mg1) = mgRandom mg
         in selectLoop (count - 1) (selectedRegions @ [randomChoice remaining r]) mg1)
      else (selectedRegions, mg))"
  by pat_completeness auto
termination
  by (relation "measure (\<lambda>(count, selectedRegions, mg). nat count)") auto

declare selectLoop.simps [simp del]

definition selectRegions :: "int \<Rightarrow> mapgen \<Rightarrow> string option list \<times> mapgen" where
  "selectRegions count mg = selectLoop (count - 1) [Some ''forest''] mg"

text \<open>
  The outer \<open>forEach\<close> of \<open>generateRun\<close>, from region \<open>regionIdx\<close> and global node index
  \<open>nodeIndex\<close> on: each region is generated, its nodes get their global and region index
  (the node objects of the region and of the run's flat list are the same objects), and
  the flat list grows by them.
\<close>

fun generateRegions ::
  "string option list \<Rightarrow> nat \<Rightarrow> int \<Rightarrow> nat \<Rightarrow> mapgen \<Rightarrow> error + (region list \<times> node list) \<times> mapgen" where
  "generateRegions [] regionIdx regionCount nodeIndex mg = Inr (([], []), mg)"
| "generateRegions (k # ks) regionIdx regionCount nodeIndex mg =
     (case generateRegion k regionIdx regionCount mg of
        Inl e \<Rightarrow> Inl e
      | Inr (rg, mg1) \<Rightarrow>
          (let nds = map (\<lambda>(j, nd). nd\<lparr>globalIndex := Some (nodeIndex + j),
                                        regionIndex := Some regionIdx\<rparr>)
                         (enumerate 0 (rnodes rg));
               rg1 = rg\<lparr>rnodes := nds\<rparr>
           in case generateRegions ks (Suc regionIdx) regionCount (nodeIndex + length nds) mg1 of
                Inl e \<Rightarrow> Inl e
              | Inr ((rgs, flat), mg2) \<Rightarrow> Inr ((rg1 # rgs, nds @ flat), mg2)))"

definition calculateRunDifficulty :: "string option list \<Rightarrow> real" where
  "calculateRunDifficulty regionKeys =
     sum_list (map (\<lambda>k. case Option.bind k (map_of regions) of
                          None \<Rightarrow> 0 | Some rt \<Rightarrow> rt_difficulty rt) regionKeys)
       / real (length regionKeys)"

text \<open>
  \<open>generateRun()\<close>. The run's id takes the first draw (\<open>generateId\<close> mixes it with the
  clock; the id belongs to no region or node and is not kept). \<open>calculateRunDifficulty\<close>
  runs after every region has been generated, so each of its keys names a region.
\<close>

definition generateRun :: "mapgen \<Rightarrow> error + run_map \<times> mapgen" where
  "generateRun mg =
     (let (rid, mg0) = mgRandom mg;
          (r, mg1) = mgRandom mg0;
          regionCount = randomInt 2 4 r;
          (selectedRegions, mg2) = selectRegions regionCount mg1
      in case generateRegions selectedRegions 0 regionCount 0 mg2 of
           Inl e \<Rightarrow> Inl e
         | Inr ((rgs, flat), mg3) \<Rightarrow>
             Inr (\<lparr>rm_regions = rgs, rm_nodes = flat, totalNodes = length flat,
                   estimatedDifficulty = calculateRunDifficulty selectedRegions\<rparr>, mg3))"

section \<open>Example sessions\<close>

text \<open>
  The entities and sessions the examples below run on, all built by the generators
  above: the goblin \<open>generateEnemy\<close> returns at difficulty 1.0 (the first
  node of the forest), the character \<open>createCharacter\<close> returns, and the session
  \<open>startCombat\<close> sets up for them on a fresh engine whose draws are all \<open>d\<close>.
\<close>

definition goblinScout :: entity where
  "goblinScout = enemyOfType (Some ''goblin'') 1.0"

definition characterOf :: "string \<Rightarrow> string \<Rightarrow> entity" where
  "characterOf cls fac = (case createCharacter cls fac of Inl e \<Rightarrow> emptyObject | Inr c \<Rightarrow> c)"

definition duel :: "string \<Rightarrow> string \<Rightarrow> real \<Rightarrow> combat" where
  "duel cls fac d = startCombat (characterOf cls fac) goblinScout None None (newCombat (\<lambda>n. d))"

text \<open>The invariant of an entity's resources, with the bounds a character carries.\<close>

definition resourcesInRange :: "entity \<Rightarrow> bool" where
  "resourcesInRange e =
     (jle (Num 0) (hp e) \<and> jle (hp e) (maxHealth e) \<and>
      jle (Num 0) (mana e) \<and> jle (mana e) (maxMana e))"

text \<open>
  A boss under a sequence of damage events: \<open>dealDamage\<close> sets the hp and then scans the
  phases once, so an event is the hp it leaves. \<open>scansFired\<close> counts the scans that
  changed \<open>bossData\<close>, the phase transitions.
\<close>

fun scansFired :: "jsnum list \<Rightarrow> entity \<Rightarrow> nat" where
  "scansFired [] boss = 0"
| "scansFired (h # hs) boss =
     (let b1 = boss\<lparr>hp := h\<rparr>; b2 = checkBossPhaseTransition b1
      in (if bossData b2 \<noteq> bossData b1 then 1 else 0) + scansFired hs b2)"

text \<open>
  The Forest Guardian of a boss node at difficulty 1.5, as \<open>startCombat\<close> initialises it
  for a boss fight, with its hp at \<open>h\<close>.
\<close>

definition forestGuardian :: "real \<Rightarrow> entity" where
  "forestGuardian h = (initializeBoss (generateBoss (Some ''forest_guardian'') 1.5))\<lparr>hp := Num h\<rparr>"

section \<open>Notions the properties are stated with\<close>

subsection \<open>Level-ups\<close>

text \<open>\<open>n\<close> level-ups in a row, as the loop of \<open>addExperienceToCharacter\<close> chains them.\<close>

fun levelUps :: "nat \<Rightarrow> entity \<Rightarrow> (nat \<Rightarrow> real) \<Rightarrow> nat \<Rightarrow> error + entity \<times> nat" where
  "levelUps 0 c rs k = Inr (c, k)"
| "levelUps (Suc n) c rs k =
     (case levelUpCharacter c rs k of
        Inl e \<Rightarrow> Inl e
      | Inr (c', k') \<Rightarrow> levelUps n c' rs k')"

text \<open>The growth of one stat: \<open>floor(growthRate + uniform(0,1))\<close>, \<open>r\<close> being the draw.\<close>

definition statGain :: "jsnum \<Rightarrow> real \<Rightarrow> jsnum" where
  "statGain growthRate r = jfloor (jadd growthRate (Num r))"

text \<open>
  One level as the specification words it, from \<open>c\<close> to \<open>c'\<close> for a character of class
  \<open>ct\<close> with the draws \<open>rs k\<close>, ..., \<open>rs (k + 3)\<close>: the next threshold is 1.2 times the old
  one, floored; each primary stat and its base value grow by the stat's gain; the
  maxima of health and mana grow by the class constant plus a bonus from the new
  vitality or intelligence, and hp and mana grow by the same amounts; attack, speed and
  defense are recomputed from the new stats and level; a locked skill whose required
  level (1 when it names none) is reached becomes unlocked.
\<close>

definition oneLevelUp :: "class_template \<Rightarrow> (nat \<Rightarrow> real) \<Rightarrow> nat \<Rightarrow> entity \<Rightarrow> entity \<Rightarrow> bool" where
  "oneLevelUp ct rs k c c' =
    (level c' = jadd (level c) (Num 1) \<and>
     experienceToNext c' = jfloor (jmul (experienceToNext c) (Num 1.2)) \<and>
     strength c' = jadd (strength c) (statGain (st_strength (growthRates c)) (rs k)) \<and>
     agility c' = jadd (agility c) (statGain (st_agility (growthRates c)) (rs (k + 1))) \<and>
     intelligence c' =
       jadd (intelligence c) (statGain (st_intelligence (growthRates c)) (rs (k + 2))) \<and>
     vitality c' = jadd (vitality c) (statGain (st_vitality (growthRates c)) (rs (k + 3))) \<and>
     st_strength (baseStats c') =
       jadd (st_strength (baseStats c)) (statGain (st_strength (growthRates c)) (rs k)) \<and>
     st_agility (baseStats c') =
       jadd (st_agility (baseStats c)) (statGain (st_agility (growthRates c)) (rs (k + 1))) \<and>
     st_intelligence (baseStats c') =
       jadd (st_intelligence (baseStats c))
            (statGain (st_intelligence (growthRates c)) (rs (k + 2))) \<and>
     st_vitality (baseStats c') =
       jadd (st_vitality (baseStats c)) (statGain (st_vitality (growthRates c)) (rs (k + 3))) \<and>
     maxHealth c' =
       jadd (maxHealth c) (jadd (healthPerLevel ct) (jfloor (jmul (vitality c') (Num 0.5)))) \<and>
     hp c' = jadd (hp c) (jadd (healthPerLevel ct) (jfloor (jmul (vitality c') (Num 0.5)))) \<and>
     maxMana c' =
       jadd (maxMana c) (jadd (manaPerLevel ct) (jfloor (jmul (intelligence c') (Num 0.3)))) \<and>
     mana c' = jadd (mana c) (jadd (manaPerLevel ct) (jfloor (jmul (intelligence c') (Num 0.3)))) \<and>
     attack c' = jadd (strength c') (jfloor (jmul (level c') (Num 0.5))) \<and>
     speed c' = jadd (agility c') (jfloor (jmul (level c') (Num 0.2))) \<and>
     defense c' =
       (let d = jadd (jfloor (jmul (vitality c') (Num 0.8))) (jfloor (jmul (level c') (Num 0.3)))
        in if truthy (defenseBonus c) then jfloor (jmul d (defenseBonus c)) else d) \<and>
     skills c' =
       map (\<lambda>sk. if \<not> unlocked sk \<and> jge (level c') (jor (requiredLevel sk) (Num 1))
                  then sk\<lparr>unlocked := True\<rparr> else sk)
           (skills c))"

declare levelUpLoop.simps [code]

subsection \<open>Draws and boss nodes\<close>

text \<open>The draws \<open>Math.random()\<close> returns lie in [0, 1).\<close>

definition unitDraws :: "(nat \<Rightarrow> real) \<Rightarrow> bool" where
  "unitDraws rs = (\<forall>n. 0 \<le> rs n \<and> rs n < 1)"

text \<open>A boss node is a node of type \<open>boss\<close>.\<close>

definition isBossNode :: "node \<Rightarrow> bool" where
  "isBossNode nd = (ntype nd = ''boss'')"

text \<open>A node list with no boss node but, when \<open>b\<close> holds, its last node.\<close>

definition bossOnlyLast :: "bool \<Rightarrow> node list \<Rightarrow> bool" where
  "bossOnlyLast b nds =
     (list_all (\<lambda>nd. \<not> isBossNode nd) (butlast nds) \<and> nds \<noteq> [] \<and> isBossNode (last nds) = b)"

text \<open>The region keys selected so far: keys of the table, none twice.\<close>

definition goodSelection :: "string option list \<Rightarrow> bool" where
  "goodSelection sel = (distinct sel \<and> set sel \<subseteq> Some ` set (map fst regions))"

section \<open>The session's store\<close>

lemma obj_setObj: "obj (setObj w e s) w' = (if w' = w then e else obj s w')"
  by (cases w; cases w') (simp_all add: obj_def setObj_def)

lemma setObj_fields:
  "draws (setObj w e s) = draws s" "cursor (setObj w e s) = cursor s"
  "player (setObj w e s) = player s" "enemy (setObj w e s) = enemy s"
  "isActive (setObj w e s) = isActive s" "currentTurn (setObj w e s) = currentTurn s"
  "turnCounter (setObj w e s) = turnCounter s" "combatResolve (setObj w e s) = combatResolve s"
  by (cases w; simp add: setObj_def)+

lemma obj_fields:
  "obj (s\<lparr>cursor := k\<rparr>) w = obj s w"
  "obj (s\<lparr>isActive := a\<rparr>) w = obj s w"
  "obj (s\<lparr>resolved := rr\<rparr>) w = obj s w"
  "obj (s\<lparr>combatResolve := b\<rparr>) w = obj s w"
  "obj (s\<lparr>currentTurn := tn\<rparr>) w = obj s w"
  "obj (cleanup s) w = obj s w"
  by (cases w; simp add: obj_def cleanup_def)+

lemma random_heap:
  "obj (snd (random s)) w = obj s w" "draws (snd (random s)) = draws s"
  "player (snd (random s)) = player s" "enemy (snd (random s)) = enemy s"
  by (simp_all add: random_def obj_fields)

lemmas store_simps = obj_setObj setObj_fields obj_fields random_heap

declare store_simps [simp]

lemma obj_eqI: "heapPlayer s' = heapPlayer s \<Longrightarrow> heapEnemy s' = heapEnemy s \<Longrightarrow> obj s' w = obj s w"
  by (cases w) (simp_all add: obj_def)

lemma generateRandomItem_heap:
  "generateRandomItem s = Inr (it, s') \<Longrightarrow>
     heapPlayer s' = heapPlayer s \<and> heapEnemy s' = heapEnemy s \<and> draws s' = draws s"
  by (auto simp: generateRandomItem_def random_def Let_def split: option.splits)

lemma calculateCombatRewards_heap:
  "calculateCombatRewards v s = Inr (rw, s') \<Longrightarrow>
     heapPlayer s' = heapPlayer s \<and> heapEnemy s' = heapEnemy s \<and> draws s' = draws s"
  by (auto simp: calculateCombatRewards_def random_def Let_def
           split: if_splits sum.splits prod.splits dest!: generateRandomItem_heap)

lemma endCombat_heap:
  "endCombat vic rsn s = Inr s' \<Longrightarrow>
     heapPlayer s' = heapPlayer s \<and> heapEnemy s' = heapEnemy s \<and> draws s' = draws s"
  by (auto simp: endCombat_def Let_def cleanup_def
           split: if_splits sum.splits prod.splits option.splits
           dest!: calculateCombatRewards_heap)

lemma endCombat_obj: "endCombat vic rsn s = Inr s' \<Longrightarrow> obj s' w = obj s w"
  by (auto dest!: endCombat_heap intro: obj_eqI)

lemma endCombat_draws: "endCombat vic rsn s = Inr s' \<Longrightarrow> draws s' = draws s"
  by (auto dest!: endCombat_heap)

text \<open>What \<open>dealDamage\<close> does to the store: the target's hp, then at most one phase scan.\<close>

lemma dealDamage_obj:
  assumes "dealDamage t dmg s = Inr s'"
  shows "draws s' = draws s"
    and "w \<noteq> t \<Longrightarrow> obj s' w = obj s w"
    and "obj s' t = (obj s t)\<lparr>hp := jmax (Num 0) (jsub (hp (obj s t)) dmg)\<rparr> \<or>
         obj s' t = checkBossPhaseTransition ((obj s t)\<lparr>hp := jmax (Num 0) (jsub (hp (obj s t)) dmg)\<rparr>)"
proof -
  let ?s1 = "setObj t ((obj s t)\<lparr>hp := jmax (Num 0) (jsub (hp (obj s t)) dmg)\<rparr>) s"
  from assms obtain s2 where
    mid: "(if jle (hp (obj ?s1 t)) (Num 0) then
             (if player ?s1 = Some t then endCombat False ''Player defeated'' ?s1
              else endCombat True ''Enemy defeated'' ?s1)
           else Inr ?s1) = Inr s2"
    and fin: "s' = (if isBoss (obj s2 t) \<and> bossData (obj s2 t) \<noteq> None
                    then setObj t (checkBossPhaseTransition (obj s2 t)) s2 else s2)"
    unfolding dealDamage_def Let_def by (auto split: sum.splits simp del: store_simps)
  have o2: "obj s2 v = obj ?s1 v" for v
    using mid by (auto split: if_splits dest: endCombat_obj simp del: store_simps)
  have d2: "draws s2 = draws ?s1"
    using mid by (auto split: if_splits dest: endCombat_draws simp del: store_simps)
  show "draws s' = draws s" using fin d2 by simp
  show "obj s' w = obj s w" if "w \<noteq> t" using that fin o2 [of w] by simp
  show "obj s' t = (obj s t)\<lparr>hp := jmax (Num 0) (jsub (hp (obj s t)) dmg)\<rparr> \<or>
        obj s' t = checkBossPhaseTransition ((obj s t)\<lparr>hp := jmax (Num 0) (jsub (hp (obj s t)) dmg)\<rparr>)"
    using fin o2 [of t] by simp
qed

lemma checkBossPhaseTransition_keeps [simp]:
  "statusEffects (checkBossPhaseTransition b) = statusEffects b"
  "statusResistance (checkBossPhaseTransition b) = statusResistance b"
  by (simp_all add: checkBossPhaseTransition_def Let_def split: option.splits)

lemma dealDamage_statusEffects:
  assumes "dealDamage t dmg s = Inr s'"
  shows "statusEffects (obj s' w) = statusEffects (obj s w)"
    and "statusResistance (obj s' w) = statusResistance (obj s w)"
  using dealDamage_obj(2) [OF assms, of w] dealDamage_obj(3) [OF assms] by (cases "w = t"; auto)+

lemma healEntity_keeps [simp]:
  "statusEffects (obj (healEntity t h s) w) = statusEffects (obj s w)"
  "statusResistance (obj (healEntity t h s) w) = statusResistance (obj s w)"
  "draws (healEntity t h s) = draws s"
  by (simp_all add: healEntity_def Let_def)

lemma consumeMana_keeps [simp]:
  "statusEffects (obj (consumeMana res s) w) = statusEffects (obj s w)"
  by (simp add: consumeMana_def Let_def split: option.splits)

lemma applyStatusEffect_other:
  "w \<noteq> t \<Longrightarrow> obj (applyStatusEffect t k d s) w = obj s w"
  by (simp add: applyStatusEffect_def random_def Let_def)

lemma applyStatusEffect_draws [simp]: "draws (applyStatusEffect t k d s) = draws s"
  by (simp add: applyStatusEffect_def random_def Let_def)

lemma applyStatusEffect_resistance [simp]:
  "statusResistance (obj (applyStatusEffect t k d s) w) = statusResistance (obj s w)"
  by (simp add: applyStatusEffect_def random_def Let_def)

lemma applyStatusEffect_unresisted:
  assumes "\<not> truthy (statusResistance (obj s t))" and "\<forall>n. 0 \<le> draws s n"
  shows "statusEffects (obj (applyStatusEffect t k d s) t) = AList.update k d (statusEffects (obj s t))"
proof -
  have "\<not> draws s (cursor s) < 0" using assms(2) by (simp add: not_less)
  then show ?thesis
    using assms(1) by (simp add: applyStatusEffect_def random_def Let_def jor_def)
qed

lemma applyEffects_other:
  "applyEffects (Some t) es s = Inr s' \<Longrightarrow> w \<noteq> t \<Longrightarrow> obj s' w = obj s w"
  by (induction es arbitrary: s) (auto simp: applyStatusEffect_other)

lemma applyEffects_total: "\<exists>s'. applyEffects (Some t) es s = Inr s'"
  by (induction es arbitrary: s) auto

lemma applyEffects_unresisted:
  assumes "\<not> truthy (statusResistance (obj s t))" and "\<forall>n. 0 \<le> draws s n"
    and "applyEffects (Some t) es s = Inr s'"
  shows "statusEffects (obj s' t) = fold (\<lambda>(k, d). AList.update k d) es (statusEffects (obj s t))"
  using assms
proof (induction es arbitrary: s)
  case Nil
  then show ?case by simp
next
  case (Cons ef es)
  let ?s1 = "applyStatusEffect t (fst ef) (snd ef) s"
  have 1: "\<not> truthy (statusResistance (obj ?s1 t))" using Cons.prems(1) by simp
  have 2: "\<forall>n. 0 \<le> draws ?s1 n" using Cons.prems(2) by simp
  have 3: "applyEffects (Some t) es ?s1 = Inr s'" using Cons.prems(3) by simp
  have "statusEffects (obj ?s1 t) = AList.update (fst ef) (snd ef) (statusEffects (obj s t))"
    using applyStatusEffect_unresisted [OF Cons.prems(1,2)] .
  with Cons.IH [OF 1 2 3] show ?case by (simp add: case_prod_beta)
qed

lemma rollEffects_heap:
  "rollEffects efs s = (out, s') \<Longrightarrow>
     heapPlayer s' = heapPlayer s \<and> heapEnemy s' = heapEnemy s \<and> draws s' = draws s \<and>
     player s' = player s \<and> enemy s' = enemy s"
  by (induction efs arbitrary: s out s')
     (auto simp: random_def Let_def split: prod.splits if_splits)

lemma applySpecialSkillEffects_heap:
  "applySpecialSkillEffects sk res s = (res', s') \<Longrightarrow>
     heapPlayer s' = heapPlayer s \<and> heapEnemy s' = heapEnemy s \<and> draws s' = draws s \<and>
     res_caster res' = res_caster res \<and> res_target res' = res_target res"
  by (auto simp: applySpecialSkillEffects_def random_def Let_def split: if_splits prod.splits)

lemma executeSkill_heap:
  assumes "executeSkill c t sk slot s = Inr (res, s')"
  shows "heapPlayer s' = heapPlayer s \<and> heapEnemy s' = heapEnemy s \<and> draws s' = draws s \<and>
         res_caster res = c \<and> res_target res = t"
  using assms
  by (auto simp: executeSkill_def random_def Let_def
           split: if_splits prod.splits sum.splits option.splits
           dest!: rollEffects_heap applySpecialSkillEffects_heap)

section \<open>Boss phase scans\<close>

lemma scanPhases_Some:
  "scanPhases ps trig pct i = Some j \<Longrightarrow>
     i \<le> j \<and> j < length ps \<and> jle pct (hpThreshold (ps ! j)) \<and> j \<notin> trig \<and>
     (\<forall>k. i \<le> k \<and> k < j \<longrightarrow> \<not> (jle pct (hpThreshold (ps ! k)) \<and> k \<notin> trig))"
proof (induction ps trig pct i rule: scanPhases.induct)
  case (1 ps trig pct i)
  show ?case
  proof (cases "i < length ps")
    case False
    with "1.prems" show ?thesis by (simp add: scanPhases.simps)
  next
    case inb: True
    show ?thesis
    proof (cases "jle pct (hpThreshold (ps ! i)) \<and> i \<notin> trig")
      case True
      with inb "1.prems" have "j = i" by (simp add: scanPhases.simps)
      with True inb show ?thesis by auto
    next
      case False
      with inb "1.prems" have rec: "scanPhases ps trig pct (Suc i) = Some j"
        by (simp add: scanPhases.simps)
      from "1.IH" [OF inb False rec]
      have ih: "Suc i \<le> j \<and> j < length ps \<and> jle pct (hpThreshold (ps ! j)) \<and> j \<notin> trig \<and>
                (\<forall>k. Suc i \<le> k \<and> k < j \<longrightarrow> \<not> (jle pct (hpThreshold (ps ! k)) \<and> k \<notin> trig))" .
      have "\<forall>k. i \<le> k \<and> k < j \<longrightarrow> \<not> (jle pct (hpThreshold (ps ! k)) \<and> k \<notin> trig)"
      proof (intro allI impI)
        fix k assume k: "i \<le> k \<and> k < j"
        show "\<not> (jle pct (hpThreshold (ps ! k)) \<and> k \<notin> trig)"
        proof (cases "k = i")
          case True with False show ?thesis by simp
        next
          case False with k ih show ?thesis by auto
        qed
      qed
      with ih show ?thesis by auto
    qed
  qed
qed

lemma checkBossPhaseTransition_cases:
  assumes bd: "bossData boss = Some bd"
  shows "checkBossPhaseTransition boss = boss \<or>
         (\<exists>i. scanPhases (phases bd) (triggeredPhases bd) (jdiv (hp boss) (maxHp boss)) (currentPhase bd) = Some i \<and>
              checkBossPhaseTransition boss =
                boss\<lparr>bossData := Some (bd\<lparr>triggeredPhases := insert i (triggeredPhases bd),
                                              currentPhase := i + 1\<rparr>),
                      phaseAbilities := phaseAbilities boss @ abilities (phases bd ! i)\<rparr>)"
  using bd by (auto simp: checkBossPhaseTransition_def Let_def split: option.splits)

lemma phases_kept:
  "bossData boss = Some bd \<Longrightarrow>
   \<exists>bd'. bossData (checkBossPhaseTransition boss) = Some bd' \<and> phases bd' = phases bd \<and>
         (bd' = bd \<or> (currentPhase bd < currentPhase bd' \<and> currentPhase bd' \<le> length (phases bd)))"
  using checkBossPhaseTransition_cases [of boss bd] scanPhases_Some
  by (auto dest!: scanPhases_Some)

lemma scansFired_bound:
  "bossData boss = Some bd \<Longrightarrow> scansFired hs boss \<le> length (phases bd) - currentPhase bd"
proof (induction hs arbitrary: boss bd)
  case Nil
  then show ?case by simp
next
  case (Cons h hs)
  let ?b1 = "boss\<lparr>hp := h\<rparr>"
  have b1: "bossData ?b1 = Some bd" using Cons.prems by simp
  from phases_kept [OF b1] obtain bd' where
    bd': "bossData (checkBossPhaseTransition ?b1) = Some bd'" "phases bd' = phases bd"
    and step: "bd' = bd \<or> (currentPhase bd < currentPhase bd' \<and> currentPhase bd' \<le> length (phases bd))"
    by blast
  have ih: "scansFired hs (checkBossPhaseTransition ?b1) \<le> length (phases bd) - currentPhase bd'"
    using Cons.IH [OF bd'(1)] bd'(2) by simp
  from step show ?case
  proof
    assume "bd' = bd"
    then show ?thesis using ih bd' b1 by (simp add: Let_def)
  next
    assume "currentPhase bd < currentPhase bd' \<and> currentPhase bd' \<le> length (phases bd)"
    then show ?thesis using ih by (auto simp: Let_def)
  qed
qed


lemma scanPhases_None:
  "scanPhases ps trig pct i = None \<Longrightarrow>
     \<forall>k. i \<le> k \<and> k < length ps \<longrightarrow> \<not> (jle pct (hpThreshold (ps ! k)) \<and> k \<notin> trig)"
proof (induction ps trig pct i rule: scanPhases.induct)
  case (1 ps trig pct i)
  show ?case
  proof (cases "i < length ps")
    case False
    then show ?thesis by auto
  next
    case inb: True
    from inb "1.prems" have here: "\<not> (jle pct (hpThreshold (ps ! i)) \<and> i \<notin> trig)"
      by (auto simp: scanPhases.simps split: if_splits)
    with inb "1.prems" have rec: "scanPhases ps trig pct (Suc i) = None"
      by (auto simp: scanPhases.simps split: if_splits)
    from "1.IH" [OF inb here rec]
    have ih: "\<forall>k. Suc i \<le> k \<and> k < length ps \<longrightarrow> \<not> (jle pct (hpThreshold (ps ! k)) \<and> k \<notin> trig)" .
    show ?thesis
    proof (intro allI impI)
      fix k assume k: "i \<le> k \<and> k < length ps"
      show "\<not> (jle pct (hpThreshold (ps ! k)) \<and> k \<notin> trig)"
      proof (cases "k = i")
        case True with here show ?thesis by simp
      next
        case False with k ih show ?thesis by auto
      qed
    qed
  qed
qed

section \<open>Rejected skill uses\<close>

text \<open>
  C5. \<open>useSkill\<close> returns \<open>false\<close> and leaves the whole session as it was (player,
  enemy, turn owner, turn counter, mana and every cooldown) when the combat is not
  active, when it is not the player's turn, when the index names no skill, and when
  \<open>canUseSkill\<close> refuses the skill: not enough mana, a running cooldown, or a player who
  is stunned or frozen.
\<close>

theorem useSkill_rejected_changes_nothing:
  assumes "\<not> isActive s \<or> currentTurn s \<noteq> PlayerTurn \<or>
           (\<exists>pw. player s = Some pw \<and>
              (skillAt (skills (obj s pw)) skillIndex = None \<or>
               (\<exists>sk. skillAt (skills (obj s pw)) skillIndex = Some sk \<and>
                  (jlt (mana (obj s pw)) (manaCost sk) \<or> jgt (currentCooldown sk) (Num 0) \<or>
                   has (statusEffects (obj s pw)) ''stunned'' \<or>
                   has (statusEffects (obj s pw)) ''frozen''))))"
  shows "useSkill skillIndex s = Inr (False, s)"
  using assms by (auto simp: useSkill_def canUseSkill_def)

theorem useSkill_rejected_witness:
  "isActive (duel ''warrior'' ''order'' 0.5) \<and>
   currentTurn (duel ''warrior'' ''order'' 0.5) = PlayerTurn \<and>
   player (duel ''warrior'' ''order'' 0.5) = Some P \<and>
   skillAt (skills (obj (duel ''warrior'' ''order'' 0.5) P)) 8 = None \<and>
   useSkill 8 (duel ''warrior'' ''order'' 0.5) =
     Inr (False, duel ''warrior'' ''order'' 0.5)"
proof -
  have h: "player (duel ''warrior'' ''order'' 0.5) = Some P \<and>
           skillAt (skills (obj (duel ''warrior'' ''order'' 0.5) P)) 8 = None"
    by code_simp
  have a: "isActive (duel ''warrior'' ''order'' 0.5) \<and>
           currentTurn (duel ''warrior'' ''order'' 0.5) = PlayerTurn"
    by code_simp
  from h have "useSkill 8 (duel ''warrior'' ''order'' 0.5) =
                 Inr (False, duel ''warrior'' ''order'' 0.5)"
    by (intro useSkill_rejected_changes_nothing) blast
  with h a show ?thesis by simp
qed

section \<open>A lethal skill\<close>

text \<open>
  C3. The warrior's Slash (skill 0) passes every validation of \<open>useSkill\<close> on the
  player's turn and kills the goblin: the enemy's hp is 0 and the combat is resolved as
  a victory. \<open>endCombat\<close> has then run \<open>cleanup\<close>, \<open>this.player\<close> is \<open>null\<close>, and
  \<open>endPlayerTurn\<close> raises on it inside the \<open>try\<close> block: the call returns \<open>false\<close>.
\<close>

theorem lethal_skill_returns_false:
  "isActive (duel ''warrior'' ''order'' 0.5) \<and>
   currentTurn (duel ''warrior'' ''order'' 0.5) = PlayerTurn \<and>
   map_option (canUseSkill (heapPlayer (duel ''warrior'' ''order'' 0.5)))
     (skillAt (skills (heapPlayer (duel ''warrior'' ''order'' 0.5))) 0) = Some True \<and>
   (case useSkill 0 (duel ''warrior'' ''order'' 0.5) of
      Inl x \<Rightarrow> False
    | Inr (b, s') \<Rightarrow>
        \<not> b \<and> hp (heapEnemy s') = Num 0 \<and> \<not> isActive s' \<and> player s' = None \<and>
        map_option victory (resolved s') = Some True)"
  by code_simp

theorem lethal_skill_witness:
  "\<exists>s'. useSkill 0 (duel ''warrior'' ''order'' 0.5) = Inr (False, s') \<and>
        map_option victory (resolved s') = Some True"
  using lethal_skill_returns_false by (auto split: sum.splits)

section \<open>Healing the player\<close>

text \<open>
  C1. The healer's Heal (skill 0) at full health: \<open>healEntity\<close> reads \<open>target.maxHp\<close>,
  which a character does not have (its bound is \<open>maxHealth\<close>), so the amount healed is
  NaN and so is the player's hp afterwards. The resources are in range before the call
  and not after it.
\<close>

theorem heal_makes_hp_NaN:
  "resourcesInRange (heapPlayer (duel ''healer'' ''nature'' 0.5)) \<and>
   (case useSkill 0 (duel ''healer'' ''nature'' 0.5) of
      Inl x \<Rightarrow> False
    | Inr (b, s') \<Rightarrow> b \<and> hp (heapPlayer s') = NaN \<and> \<not> resourcesInRange (heapPlayer s'))"
  by code_simp

theorem heal_makes_hp_NaN_witness:
  "\<exists>s'. useSkill 0 (duel ''healer'' ''nature'' 0.5) = Inr (True, s') \<and> hp (heapPlayer s') = NaN"
  using heal_makes_hp_NaN by (auto split: sum.splits)

text \<open>
  On an entity that has \<open>maxHp\<close>, as the generated enemies do, \<open>healEntity\<close> caps the hp
  at it.
\<close>

lemma healEntity_caps:
  assumes "hp (obj s t) = Num h" and "maxHp (obj s t) = Num m"
  shows "hp (obj (healEntity t (Num a) s) t) = Num (min (h + a) m)"
  using assms unfolding healEntity_def Let_def by (simp add: min_def)

section \<open>The damage of an enemy's basic attack\<close>

text \<open>
  C7. The basic attack \<open>getEnemyBasicAttack\<close> builds has a positive damage component and
  the type \<open>physical\<close>, so \<open>getRelevantAttackStat\<close> reads the attacker's \<open>strength\<close>; a
  generated enemy has none, and \<open>calculateDamage\<close> returns NaN whatever the draw.
\<close>

theorem basic_attack_damage_NaN:
  "jgt (damage (getEnemyBasicAttack goblinScout)) (Num 0) \<and>
   calculateDamage goblinScout (characterOf ''warrior'' ''order'')
     (getEnemyBasicAttack goblinScout) r = NaN"
  by (simp add: calculateDamage_def getRelevantAttackStat_def getEnemyBasicAttack_def
        goblinScout_def enemyOfType_def scaledEntity_def emptyObject_def emptySkill_def
        jgt_def jor_def enemyTemplates_def)

theorem basic_attack_damage_witness:
  "calculateDamage goblinScout (characterOf ''warrior'' ''order'')
     (getEnemyBasicAttack goblinScout) 0.5 = NaN"
  using basic_attack_damage_NaN [of "0.5"] by simp

text \<open>
  With numeric operands the result is an integer, at least 1: a numeric base damage,
  attack stat, scaling factor and defense, the defense other than -100 (where the
  mitigation divides by zero).
\<close>

lemma calculateDamage_numeric:
  assumes "damage sk = Num b" and "getRelevantAttackStat attacker sk = Num a"
    and "scalingFactor sk = Num f" and "defense defender = Num d" and "d \<noteq> - 100"
  shows "\<exists>n::int. 1 \<le> n \<and> calculateDamage attacker defender sk r = Num (of_int n)"
proof -
  have m: "\<exists>n::int. 1 \<le> n \<and> jmax (Num 1) (jfloor (Num x)) = Num (of_int n)" for x
    by (rule exI [of _ "max 1 \<lfloor>x\<rfloor>"]) (simp add: max_def)
  have "\<exists>x. calculateDamage attacker defender sk r = jmax (Num 1) (jfloor (Num x))"
    using assms unfolding calculateDamage_def Let_def by (auto simp add: add_eq_0_iff)
  then show ?thesis using m by auto
qed

text \<open>
  Base damage 20, attack stat 10, scaling factor 1, defense 0, no status effect, and the
  draw 0.5, which makes the variance \<open>0.85 + 0.5 * 0.3 = 1\<close>: the damage is 30.
\<close>

lemma calculateDamage_scenario:
  assumes "damage sk = Num 20" and "getRelevantAttackStat attacker sk = Num 10"
    and "scalingFactor sk = Num 1" and "defense defender = Num 0"
    and "\<not> has (statusEffects attacker) ''strength_boost''"
    and "\<not> has (statusEffects attacker) ''weakness''"
    and "\<not> has (statusEffects defender) ''defense_boost''"
  shows "calculateDamage attacker defender sk 0.5 = Num 30"
  using assms unfolding calculateDamage_def Let_def by simp

section \<open>Fleeing\<close>



section \<open>Where a skill's status effects land\<close>



section \<open>Boss phases fire once, one per scan\<close>

text \<open>
  C4. For a boss with phase data, one scan (\<open>checkBossPhaseTransition\<close>, which
  \<open>dealDamage\<close> runs once after it has set the hp) keeps the phase table and every
  triggered index, and either changes nothing or fires exactly one phase: the first
  index from \<open>currentPhase\<close> on that is not yet triggered and whose threshold the hp
  fraction has reached. That index joins \<open>triggeredPhases\<close>, and \<open>currentPhase\<close> moves
  past it. Over any sequence of damage events at most as many scans fire as the boss
  has phases.
\<close>

theorem boss_phase_scan:
  assumes bd: "bossData boss = Some bd"
  shows "\<exists>bd'. bossData (checkBossPhaseTransition boss) = Some bd' \<and>
           phases bd' = phases bd \<and> triggeredPhases bd \<subseteq> triggeredPhases bd' \<and>
           (bd' = bd \<and>
            (\<forall>k. currentPhase bd \<le> k \<and> k < length (phases bd) \<longrightarrow>
                 \<not> (jle (jdiv (hp boss) (maxHp boss)) (hpThreshold (phases bd ! k)) \<and>
                    k \<notin> triggeredPhases bd)) \<or>
            (\<exists>i. currentPhase bd \<le> i \<and> i < length (phases bd) \<and> i \<notin> triggeredPhases bd \<and>
                 jle (jdiv (hp boss) (maxHp boss)) (hpThreshold (phases bd ! i)) \<and>
                 (\<forall>k. currentPhase bd \<le> k \<and> k < i \<longrightarrow>
                      \<not> (jle (jdiv (hp boss) (maxHp boss)) (hpThreshold (phases bd ! k)) \<and>
                         k \<notin> triggeredPhases bd)) \<and>
                 triggeredPhases bd' = insert i (triggeredPhases bd) \<and>
                 currentPhase bd' = i + 1)) \<and>
           (\<forall>hs. scansFired hs boss \<le> length (phases bd))"
proof -
  have bound: "\<forall>hs. scansFired hs boss \<le> length (phases bd)"
  proof
    fix hs
    have "scansFired hs boss \<le> length (phases bd) - currentPhase bd"
      using scansFired_bound [OF bd] .
    then show "scansFired hs boss \<le> length (phases bd)" by simp
  qed
  show ?thesis
  proof (cases "scanPhases (phases bd) (triggeredPhases bd) (jdiv (hp boss) (maxHp boss))
                  (currentPhase bd)")
    case None
    have same: "checkBossPhaseTransition boss = boss"
      using bd None by (simp add: checkBossPhaseTransition_def)
    from scanPhases_None [OF None] same bd bound show ?thesis by auto
  next
    case (Some i)
    let ?bd' = "bd\<lparr>triggeredPhases := insert i (triggeredPhases bd), currentPhase := i + 1\<rparr>"
    have 1: "bossData (checkBossPhaseTransition boss) = Some ?bd'"
      using bd Some by (simp add: checkBossPhaseTransition_def)
    have 2: "phases ?bd' = phases bd \<and> triggeredPhases bd \<subseteq> triggeredPhases ?bd'" by auto
    have 3: "\<exists>j. currentPhase bd \<le> j \<and> j < length (phases bd) \<and> j \<notin> triggeredPhases bd \<and>
                 jle (jdiv (hp boss) (maxHp boss)) (hpThreshold (phases bd ! j)) \<and>
                 (\<forall>k. currentPhase bd \<le> k \<and> k < j \<longrightarrow>
                      \<not> (jle (jdiv (hp boss) (maxHp boss)) (hpThreshold (phases bd ! k)) \<and>
                         k \<notin> triggeredPhases bd)) \<and>
                 triggeredPhases ?bd' = insert j (triggeredPhases bd) \<and>
                 currentPhase ?bd' = j + 1"
      using scanPhases_Some [OF Some] by (intro exI [of _ i]) simp
    from 1 2 3 bound show ?thesis by blast
  qed
qed

text \<open>
  The Forest Guardian (thresholds 0.75, 0.5, 0.25) dropped to 40 of its 225 hp by one
  hit: the scan fires phase 0 alone, although three thresholds are passed.
\<close>

theorem boss_phase_scan_witness:
  "\<exists>bd bd'. bossData (forestGuardian 40) = Some bd \<and>
      bossData (checkBossPhaseTransition (forestGuardian 40)) = Some bd' \<and>
      length (phases bd) = 3 \<and> triggeredPhases bd = {} \<and>
      triggeredPhases bd' = {0} \<and> currentPhase bd' = 1 \<and>
      scansFired [Num 40, Num 30, Num 20, Num 10, Num 0] (forestGuardian 225) \<le> 3"
proof -
  have v: "map_option (\<lambda>bd. (length (phases bd), triggeredPhases bd, currentPhase bd))
             (bossData (forestGuardian 40)) = Some (3, {}, 0)"
    by (simp add: forestGuardian_def initializeBoss_def generateBoss_def scaledEntity_def
          bossTemplates_def bossPhases_def emptyObject_def Let_def)
  then obtain bd where bd: "bossData (forestGuardian 40) = Some bd"
    and l: "length (phases bd) = 3" and t: "triggeredPhases bd = {}" and c: "currentPhase bd = 0"
    by auto
  have bd2: "bossData (forestGuardian 225) = Some bd"
    using bd by (simp add: forestGuardian_def)
  have met: "jle (jdiv (hp (forestGuardian 40)) (maxHp (forestGuardian 40)))
               (hpThreshold (phases bd ! 0))"
    using bd
    by (auto simp add: forestGuardian_def initializeBoss_def generateBoss_def scaledEntity_def
          bossTemplates_def bossPhases_def emptyObject_def mkPhase_def Let_def)
  from boss_phase_scan [OF bd] obtain bd' where
    1: "bossData (checkBossPhaseTransition (forestGuardian 40)) = Some bd'"
    and 2: "(bd' = bd \<and>
             (\<forall>k. currentPhase bd \<le> k \<and> k < length (phases bd) \<longrightarrow>
                  \<not> (jle (jdiv (hp (forestGuardian 40)) (maxHp (forestGuardian 40)))
                         (hpThreshold (phases bd ! k)) \<and>
                     k \<notin> triggeredPhases bd))) \<or>
            (\<exists>i. currentPhase bd \<le> i \<and> i < length (phases bd) \<and> i \<notin> triggeredPhases bd \<and>
                 jle (jdiv (hp (forestGuardian 40)) (maxHp (forestGuardian 40)))
                     (hpThreshold (phases bd ! i)) \<and>
                 (\<forall>k. currentPhase bd \<le> k \<and> k < i \<longrightarrow>
                      \<not> (jle (jdiv (hp (forestGuardian 40)) (maxHp (forestGuardian 40)))
                             (hpThreshold (phases bd ! k)) \<and>
                         k \<notin> triggeredPhases bd)) \<and>
                 triggeredPhases bd' = insert i (triggeredPhases bd) \<and>
                 currentPhase bd' = i + 1)"
    by blast
  from 2 have fired: "triggeredPhases bd' = {0} \<and> currentPhase bd' = 1"
  proof
    assume "bd' = bd \<and>
             (\<forall>k. currentPhase bd \<le> k \<and> k < length (phases bd) \<longrightarrow>
                  \<not> (jle (jdiv (hp (forestGuardian 40)) (maxHp (forestGuardian 40)))
                         (hpThreshold (phases bd ! k)) \<and>
                     k \<notin> triggeredPhases bd))"
    with met l t c show ?thesis by auto
  next
    assume "\<exists>i. currentPhase bd \<le> i \<and> i < length (phases bd) \<and> i \<notin> triggeredPhases bd \<and>
                 jle (jdiv (hp (forestGuardian 40)) (maxHp (forestGuardian 40)))
                     (hpThreshold (phases bd ! i)) \<and>
                 (\<forall>k. currentPhase bd \<le> k \<and> k < i \<longrightarrow>
                      \<not> (jle (jdiv (hp (forestGuardian 40)) (maxHp (forestGuardian 40)))
                             (hpThreshold (phases bd ! k)) \<and>
                         k \<notin> triggeredPhases bd)) \<and>
                 triggeredPhases bd' = insert i (triggeredPhases bd) \<and>
                 currentPhase bd' = i + 1"
    then obtain i where
      first: "\<forall>k. currentPhase bd \<le> k \<and> k < i \<longrightarrow>
                      \<not> (jle (jdiv (hp (forestGuardian 40)) (maxHp (forestGuardian 40)))
                             (hpThreshold (phases bd ! k)) \<and>
                         k \<notin> triggeredPhases bd)"
      and upd: "triggeredPhases bd' = insert i (triggeredPhases bd)" "currentPhase bd' = i + 1"
      by blast
    have "i = 0"
    proof (rule ccontr)
      assume "i \<noteq> 0"
      then have "currentPhase bd \<le> 0 \<and> 0 < i" using c by simp
      with first met t show False by auto
    qed
    with upd t show ?thesis by simp
  qed
  from boss_phase_scan [OF bd2]
  have "\<forall>hs. scansFired hs (forestGuardian 225) \<le> length (phases bd)" by blast
  then have "scansFired [Num 40, Num 30, Num 20, Num 10, Num 0] (forestGuardian 225)
               \<le> length (phases bd)" by (rule spec)
  then have 3: "scansFired [Num 40, Num 30, Num 20, Num 10, Num 0] (forestGuardian 225) \<le> 3"
    unfolding l .
  from bd 1 l t fired 3 show ?thesis by blast
qed

section \<open>Levelling up\<close>

lemma levelUpCharacter_effect:
  assumes "classTemplates (className c) = Some ct"
  shows "\<exists>c'. levelUpCharacter c rs k = Inr (c', k + 4) \<and>
           className c' = className c \<and>
           experience c' = jsub (experience c) (experienceToNext c) \<and>
           experienceToNext c' = jfloor (jmul (experienceToNext c) (Num 1.2)) \<and>
           oneLevelUp ct rs k c c'"
  using assms
  by (simp add: levelUpCharacter_def checkSkillUnlocks_def recalculateCharacterStats_def
        statGain_def oneLevelUp_def Let_def)

lemma levelUpLoop_levels:
  assumes "classTemplates (className c) = Some ct"
      and "experience c = Num x" and "experienceToNext c = Num t" and "1 \<le> t"
  shows "\<exists>n c' k'. levelUpLoop c rs k = Some (Inr (c', k')) \<and>
           levelUps n c rs k = Inr (c', k') \<and>
           jlt (experience c') (experienceToNext c') \<and>
           (\<forall>m<n. \<exists>cm km. levelUps m c rs k = Inr (cm, km) \<and>
                           jge (experience cm) (experienceToNext cm))"
  using assms
proof (induction "nat \<lfloor>x\<rfloor>" arbitrary: c x t k rule: less_induct)
  case less
  show ?case
  proof (cases "x < t")
    case True
    have stop: "levelUpLoop c rs k = Some (Inr (c, k))"
      using less.prems True by (subst levelUpLoop.simps) (simp add: jge_def)
    have "levelUps 0 c rs k = Inr (c, k) \<and> jlt (experience c) (experienceToNext c)"
      using less.prems True by simp
    with stop show ?thesis by (intro exI [of _ 0] exI [of _ c] exI [of _ k]) simp
  next
    case False
    then have ge: "t \<le> x" by simp
    from levelUpCharacter_effect [OF less.prems(1), of rs k] obtain c1 where
      up: "levelUpCharacter c rs k = Inr (c1, k + 4)"
      and cls1: "className c1 = className c"
      and x1: "experience c1 = jsub (experience c) (experienceToNext c)"
      and t1: "experienceToNext c1 = jfloor (jmul (experienceToNext c) (Num 1.2))"
      by blast
    have x1': "experience c1 = Num (x - t)" using x1 less.prems by simp
    have t1': "experienceToNext c1 = Num (of_int \<lfloor>t * 1.2\<rfloor>)" using t1 less.prems by simp
    have "(1::real) \<le> t * 1.2" using less.prems(4) by simp
    then have "1 \<le> \<lfloor>t * 1.2\<rfloor>" by (simp add: le_floor_iff)
    then have t1ge: "(1::real) \<le> of_int \<lfloor>t * 1.2\<rfloor>" by simp
    have "\<lfloor>x - t\<rfloor> \<le> \<lfloor>x - 1\<rfloor>" using less.prems(4) by (intro floor_mono) simp
    moreover have "1 \<le> \<lfloor>x\<rfloor>" using ge less.prems(4) by (simp add: le_floor_iff)
    ultimately have dec: "nat \<lfloor>x - t\<rfloor> < nat \<lfloor>x\<rfloor>" by simp
    have cls1': "classTemplates (className c1) = Some ct" using cls1 less.prems(1) by simp
    from less.hyps [OF dec cls1' x1' t1' t1ge, of "k + 4"] obtain n c' k' where
      loop: "levelUpLoop c1 rs (k + 4) = Some (Inr (c', k'))"
      and its: "levelUps n c1 rs (k + 4) = Inr (c', k')"
      and fin: "jlt (experience c') (experienceToNext c')"
      and inter: "\<forall>m<n. \<exists>cm km. levelUps m c1 rs (k + 4) = Inr (cm, km) \<and>
                           jge (experience cm) (experienceToNext cm)"
      by blast
    have guard: "jge (experience c) (experienceToNext c)"
      using less.prems ge by (simp add: jge_def)
    have loop0: "levelUpLoop c rs k = Some (Inr (c', k'))"
      using guard up loop by (subst levelUpLoop.simps) simp
    have its0: "levelUps (Suc n) c rs k = Inr (c', k')" using up its by simp
    have inter0: "\<forall>m<Suc n. \<exists>cm km. levelUps m c rs k = Inr (cm, km) \<and>
                           jge (experience cm) (experienceToNext cm)"
    proof (intro allI impI)
      fix m assume m: "m < Suc n"
      show "\<exists>cm km. levelUps m c rs k = Inr (cm, km) \<and> jge (experience cm) (experienceToNext cm)"
      proof (cases m)
        case 0
        with guard show ?thesis by simp
      next
        case (Suc m')
        with m inter up show ?thesis by simp
      qed
    qed
    from loop0 its0 fin inter0 show ?thesis by blast
  qed
qed

text \<open>
  C9. For a character of a known class whose experience is a number and whose next
  threshold is at least 1 (it is 100 at creation and never shrinks below that), an
  experience grant \<open>g\<close> ends: \<open>addExperienceToCharacter\<close> returns the character after
  some number \<open>n\<close> of level-ups in a row, each taken while the experience had reached
  the threshold, and then the experience is below the threshold. Every single level-up
  of such a character takes four draws and is one level as the specification words it.
\<close>

theorem addExperience_levels_up:
  assumes "classTemplates (className c) = Some ct"
      and "experience c = Num x" and "experienceToNext c = Num t" and "1 \<le> t"
  shows "(\<exists>n c' k'.
            addExperienceToCharacter c (Num g) rs k = Some (Inr (c', k')) \<and>
            levelUps n (c\<lparr>experience := Num (x + g)\<rparr>) rs k = Inr (c', k') \<and>
            jlt (experience c') (experienceToNext c') \<and>
            (\<forall>m<n. \<exists>cm km. levelUps m (c\<lparr>experience := Num (x + g)\<rparr>) rs k = Inr (cm, km) \<and>
                            jge (experience cm) (experienceToNext cm))) \<and>
         (\<forall>d dt j. classTemplates (className d) = Some dt \<longrightarrow>
            (\<exists>d'. levelUpCharacter d rs j = Inr (d', j + 4) \<and> oneLevelUp dt rs j d d'))"
proof
  let ?c0 = "c\<lparr>experience := Num (x + g)\<rparr>"
  have c0: "addExperienceToCharacter c (Num g) rs k = levelUpLoop ?c0 rs k"
    using assms(2) by (simp add: addExperienceToCharacter_def)
  have "classTemplates (className ?c0) = Some ct" "experience ?c0 = Num (x + g)"
       "experienceToNext ?c0 = Num t"
    using assms by simp_all
  from levelUpLoop_levels [OF this assms(4), of rs k] c0
  show "\<exists>n c' k'.
            addExperienceToCharacter c (Num g) rs k = Some (Inr (c', k')) \<and>
            levelUps n ?c0 rs k = Inr (c', k') \<and>
            jlt (experience c') (experienceToNext c') \<and>
            (\<forall>m<n. \<exists>cm km. levelUps m ?c0 rs k = Inr (cm, km) \<and>
                            jge (experience cm) (experienceToNext cm))"
    by simp
next
  show "\<forall>d dt j. classTemplates (className d) = Some dt \<longrightarrow>
            (\<exists>d'. levelUpCharacter d rs j = Inr (d', j + 4) \<and> oneLevelUp dt rs j d d')"
    using levelUpCharacter_effect by blast
qed

text \<open>
  A new warrior granted 250 experience, every draw 0.5: two levels (thresholds 100 and
  120), 30 experience left against the threshold 144.
\<close>

theorem addExperience_witness:
  "\<exists>c' k'. addExperienceToCharacter (characterOf ''warrior'' ''order'') (Num 250) (\<lambda>n. 0.5) 0
              = Some (Inr (c', k')) \<and>
           jlt (experience c') (experienceToNext c') \<and>
           level c' = Num 3 \<and> experience c' = Num 30 \<and> experienceToNext c' = Num 144 \<and> k' = 8"
proof -
  let ?w = "characterOf ''warrior'' ''order''"
  have pre: "map_option ct_name (classTemplates (className ?w)) = Some ''Warrior'' \<and>
             experience ?w = Num 0 \<and> experienceToNext ?w = Num 100"
    by code_simp
  then obtain ct where cls: "classTemplates (className ?w) = Some ct" by auto
  have t: "(1::real) \<le> 100" by simp
  from addExperience_levels_up [OF cls _ _ t, of 0 250 "\<lambda>n. 0.5" 0] pre
  obtain c' k' where
    run: "addExperienceToCharacter ?w (Num 250) (\<lambda>n. 0.5) 0 = Some (Inr (c', k'))"
    and below: "jlt (experience c') (experienceToNext c')"
    by auto
  have val: "case addExperienceToCharacter ?w (Num 250) (\<lambda>n. 0.5) 0 of
               Some (Inr (c', k')) \<Rightarrow>
                 level c' = Num 3 \<and> experience c' = Num 30 \<and> experienceToNext c' = Num 144 \<and>
                 k' = 8
             | _ \<Rightarrow> False"
    by code_simp
  from run val have "level c' = Num 3 \<and> experience c' = Num 30 \<and>
                     experienceToNext c' = Num 144 \<and> k' = 8"
    by simp
  with run below show ?thesis by blast
qed

section \<open>Generated runs\<close>

lemma randomInt_range:
  assumes "0 \<le> r" "r < 1" "lo \<le> hi"
  shows "lo \<le> randomInt lo hi r \<and> randomInt lo hi r \<le> hi"
proof -
  let ?n = "hi - lo + 1"
  have n: "0 < (of_int ?n :: real)" using assms(3) by simp
  have "0 \<le> r * of_int ?n" using assms(1) n by simp
  then have lo: "0 \<le> \<lfloor>r * of_int ?n\<rfloor>" by simp
  have lt: "r * of_int ?n < of_int ?n" using assms(2) n by simp
  have "\<lfloor>r * of_int ?n\<rfloor> < ?n" unfolding floor_less_iff by (rule lt)
  with lo show ?thesis unfolding randomInt_def by linarith
qed

lemma randomChoice_member:
  assumes "0 \<le> r" "r < 1" "xs \<noteq> []"
  shows "\<exists>x. randomChoice xs r = Some x \<and> x \<in> set xs"
proof -
  let ?n = "real (length xs)"
  have n: "0 < ?n" using assms(3) by simp
  have "0 \<le> r * ?n" using assms(1) by simp
  then have lo: "0 \<le> \<lfloor>r * ?n\<rfloor>" by simp
  have "r * ?n < ?n" using assms(2) n by simp
  then have lt: "r * ?n < of_int (int (length xs))" by simp
  have "\<lfloor>r * ?n\<rfloor> < int (length xs)" unfolding floor_less_iff by (rule lt)
  with lo have "nat \<lfloor>r * ?n\<rfloor> < length xs" by linarith
  with lo show ?thesis by (simp add: randomChoice_def Let_def)
qed

lemma pickWeighted_no_boss:
  "w_boss w = 0 \<Longrightarrow> pickWeighted (weightEntries w) x \<noteq> Some ''boss''"
  by (simp add: weightEntries_def)

lemma weightedRandomChoice_no_boss:
  assumes "w_boss w = 0"
  shows "\<exists>k. weightedRandomChoice (weightEntries w) r = Some k \<and> k \<noteq> ''boss''"
proof (cases "pickWeighted (weightEntries w) (r * sum_list (map snd (weightEntries w)))")
  case None
  then show ?thesis by (simp add: weightedRandomChoice_def weightEntries_def)
next
  case (Some k)
  with pickWeighted_no_boss [OF assms] have "k \<noteq> ''boss''" by metis
  with Some show ?thesis by (simp add: weightedRandomChoice_def)
qed

lemma selectNodeType_no_boss:
  assumes "w_boss (nodeTypes mg) = 0"
  shows "\<exists>k mg1. selectNodeType i L mg = (Some k, mg1) \<and> k \<noteq> ''boss'' \<and>
           w_boss (nodeTypes mg1) = 0 \<and> mg_draws mg1 = mg_draws mg"
proof -
  let ?w0 = "nodeTypes mg"
  let ?w1 = "(if i = 0
                then ?w0\<lparr>w_combat := w_combat ?w0 * 1.5, w_event := w_event ?w0 * 1.2,
                        w_rest := w_rest ?w0 * 0.5\<rparr>
                else ?w0)"
  let ?w2 = "(if i > 0 \<and> int i < L - 2
                then ?w1\<lparr>w_merchant := w_merchant ?w1 * 1.5, w_resource := w_resource ?w1 * 1.3\<rparr>
                else ?w1)"
  let ?w3 = "(if int i \<ge> L - 2
                then ?w2\<lparr>w_merchant := w_merchant ?w2 * 0.3, w_combat := w_combat ?w2 * 1.3\<rparr>
                else ?w2)"
  have b: "w_boss ?w3 = 0" using assms by simp
  from weightedRandomChoice_no_boss [OF b, of "mg_draws mg (mg_cursor mg)"]
  obtain k where k: "weightedRandomChoice (weightEntries ?w3) (mg_draws mg (mg_cursor mg)) = Some k"
    and nb: "k \<noteq> ''boss''" by blast
  have "selectNodeType i L mg = (Some k, mg\<lparr>nodeTypes := ?w3, mg_cursor := Suc (mg_cursor mg)\<rparr>)"
    using k by (simp add: selectNodeType_def mgRandom_def Let_def)
  with nb b show ?thesis by simp
qed

lemma payload_keep:
  "generateEnemy rt d mg = (x1, m1) \<Longrightarrow>
     w_boss (nodeTypes m1) = w_boss (nodeTypes mg) \<and> mg_draws m1 = mg_draws mg"
  "generateEvent rt mg = (x2, m2) \<Longrightarrow>
     w_boss (nodeTypes m2) = w_boss (nodeTypes mg) \<and> mg_draws m2 = mg_draws mg"
  "generateResource rt mg = (x3, m3) \<Longrightarrow>
     w_boss (nodeTypes m3) = w_boss (nodeTypes mg) \<and> mg_draws m3 = mg_draws mg"
  "generateMerchant mg = (x4, m4) \<Longrightarrow>
     w_boss (nodeTypes m4) = w_boss (nodeTypes mg) \<and> mg_draws m4 = mg_draws mg"
  "generateRestSite mg = (x5, m5) \<Longrightarrow>
     w_boss (nodeTypes m5) = w_boss (nodeTypes mg) \<and> mg_draws m5 = mg_draws mg"
  by (auto simp: generateEnemy_def generateEvent_def generateResource_def
        generateMerchant_def generateRestSite_def mgRandom_def Let_def split: prod.splits)

lemma generateRegularNode_no_boss:
  assumes "w_boss (nodeTypes mg) = 0"
  shows "\<exists>nd mg1. generateRegularNode rt d i L mg = Inr (nd, mg1) \<and> ntype nd \<noteq> ''boss'' \<and>
           w_boss (nodeTypes mg1) = 0 \<and> mg_draws mg1 = mg_draws mg"
proof -
  from selectNodeType_no_boss [OF assms, of i L] obtain k mg1 where
    sel: "selectNodeType i L mg = (Some k, mg1)" and nb: "k \<noteq> ''boss''"
    and w: "w_boss (nodeTypes mg1) = 0" and dr: "mg_draws mg1 = mg_draws mg" by blast
  let ?nd = "blankNode\<lparr>ntype := k, nname := nodeTypeName k, ndifficulty := d + real i * 0.1\<rparr>"
  have nt: "ntype ?nd = k" by simp
  obtain en m1 where e1: "generateEnemy rt (ndifficulty ?nd) mg1 = (en, m1)" by force
  obtain ev m2 where e2: "generateEvent rt mg1 = (ev, m2)" by force
  obtain ty am m3 where e3: "generateResource rt mg1 = ((ty, am), m3)"
    by (metis surj_pair)
  obtain cnt hg m4 where e4: "generateMerchant mg1 = ((cnt, hg), m4)"
    by (metis surj_pair)
  obtain rst m5 where e5: "generateRestSite mg1 = (rst, m5)" by force
  note keeps = payload_keep(1) [OF e1] payload_keep(2) [OF e2] payload_keep(3) [OF e3]
               payload_keep(4) [OF e4] payload_keep(5) [OF e5]
  have unfolded: "generateRegularNode rt d i L mg =
     (if k = ''combat'' then Inr (?nd\<lparr>npayload := EnemyPayload en\<rparr>, m1)
      else if k = ''event'' then Inr (?nd\<lparr>npayload := EventPayload ev\<rparr>, m2)
      else if k = ''resource'' then Inr (?nd\<lparr>npayload := ResourcePayload ty am\<rparr>, m3)
      else if k = ''merchant'' then Inr (?nd\<lparr>npayload := MerchantPayload cnt hg\<rparr>, m4)
      else if k = ''rest'' then Inr (?nd\<lparr>npayload := RestPayload rst\<rparr>, m5)
      else Inr (?nd, mg1))"
    unfolding generateRegularNode_def sel Let_def using e1 e2 e3 e4 e5 by simp
  show ?thesis
    unfolding unfolded using nb w dr keeps by (simp only: if_distrib) (simp add: blankNode_def)
qed

lemma generateBossNode_boss:
  "\<exists>nd mg1. generateBossNode rt d mg = (nd, mg1) \<and> ntype nd = ''boss'' \<and>
           w_boss (nodeTypes mg1) = w_boss (nodeTypes mg) \<and> mg_draws mg1 = mg_draws mg"
  by (simp add: generateBossNode_def mgRandom_def Let_def blankNode_def)


lemma bossOnlyLast_Cons:
  "\<not> isBossNode nd \<Longrightarrow> bossOnlyLast b nds \<Longrightarrow> bossOnlyLast b (nd # nds)"
  by (simp add: bossOnlyLast_def)

lemma bossOnlyLast_single: "bossOnlyLast (isBossNode nd) [nd]"
  by (simp add: bossOnlyLast_def)

lemma generateNodes_shape:
  assumes "w_boss (nodeTypes mg) = 0" and "int i < L"
  shows "\<exists>nds mg'. generateNodes key rt d isLast L i mg = Inr (nds, mg') \<and>
           bossOnlyLast isLast nds \<and> int (length nds) = L - int i \<and>
           w_boss (nodeTypes mg') = 0 \<and> mg_draws mg' = mg_draws mg"
  using assms
proof (induction key rt d isLast L i mg rule: generateNodes.induct)
  case (1 key rt d isLast L i mg)
  let ?boss = "isLast \<and> int i = L - 1"
  obtain nd mg1 where
    step: "(if ?boss then Inr (generateBossNode rt d mg)
            else generateRegularNode rt d i L mg) = Inr (nd, mg1)"
    and kind: "isBossNode nd = ?boss"
    and w1: "w_boss (nodeTypes mg1) = 0" and d1: "mg_draws mg1 = mg_draws mg"
  proof (cases ?boss)
    case True
    from generateBossNode_boss [of rt d mg] obtain nd mg1 where
      g: "generateBossNode rt d mg = (nd, mg1)" "ntype nd = ''boss''"
         "w_boss (nodeTypes mg1) = w_boss (nodeTypes mg)" "mg_draws mg1 = mg_draws mg" by blast
    show ?thesis
    proof (rule that [of nd mg1])
      show "(if ?boss then Inr (generateBossNode rt d mg)
             else generateRegularNode rt d i L mg) = Inr (nd, mg1)"
        using True g(1) by simp
      show "isBossNode nd = ?boss" using True g(2) by (simp add: isBossNode_def)
      show "w_boss (nodeTypes mg1) = 0" using g(3) "1.prems"(1) by simp
      show "mg_draws mg1 = mg_draws mg" using g(4) .
    qed
  next
    case False
    from generateRegularNode_no_boss [OF "1.prems"(1), of rt d i L] obtain nd mg1 where
      g: "generateRegularNode rt d i L mg = Inr (nd, mg1)" "ntype nd \<noteq> ''boss''"
         "w_boss (nodeTypes mg1) = 0" "mg_draws mg1 = mg_draws mg" by blast
    show ?thesis
    proof (rule that [of nd mg1])
      show "(if ?boss then Inr (generateBossNode rt d mg)
             else generateRegularNode rt d i L mg) = Inr (nd, mg1)"
        using False g(1) by auto
      show "isBossNode nd = ?boss" using False g(2) by (auto simp: isBossNode_def)
      show "w_boss (nodeTypes mg1) = 0" using g(3) .
      show "mg_draws mg1 = mg_draws mg" using g(4) .
    qed
  qed
  let ?nd = "nd\<lparr>regionKey := key, localIndex := i\<rparr>"
  have kind': "isBossNode ?nd = ?boss" using kind by (simp add: isBossNode_def)
  show ?case
  proof (cases "int (Suc i) < L")
    case True
    then have notlast: "int i \<noteq> L - 1" by simp
    from "1.IH" [OF "1.prems"(2) refl refl step refl w1 True]
    obtain nds mg' where
      rec: "generateNodes key rt d isLast L (Suc i) mg1 = Inr (nds, mg')"
      and sh: "bossOnlyLast isLast nds" and len: "int (length nds) = L - int (Suc i)"
      and w': "w_boss (nodeTypes mg') = 0" and d': "mg_draws mg' = mg_draws mg1"
      by blast
    have res: "generateNodes key rt d isLast L i mg = Inr (?nd # nds, mg')"
      using "1.prems"(2) step rec by (subst generateNodes.simps) (simp add: Let_def)
    have "bossOnlyLast isLast (?nd # nds)"
      using kind' notlast sh by (intro bossOnlyLast_Cons) simp_all
    with res len w' d' d1 show ?thesis by simp
  next
    case False
    with "1.prems"(2) have last: "int i = L - 1" by simp
    have stop: "generateNodes key rt d isLast L (Suc i) mg1 = Inr ([], mg1)"
      using False by (subst generateNodes.simps) simp
    have res: "generateNodes key rt d isLast L i mg = Inr ([?nd], mg1)"
      using "1.prems"(2) step stop by (subst generateNodes.simps) (simp add: Let_def)
    have "bossOnlyLast isLast [?nd]"
      using bossOnlyLast_single [of ?nd] kind' last by simp
    with res last w1 d1 show ?thesis by simp
  qed
qed


lemma generateRegion_shape:
  assumes dr: "unitDraws (mg_draws mg)" and wb: "w_boss (nodeTypes mg) = 0"
      and key: "map_of regions key = Some rt"
  shows "\<exists>rg mg'. generateRegion (Some key) idx cnt mg = Inr (rg, mg') \<and> rkey rg = key \<and>
           bossOnlyLast (int idx = cnt - 1) (rnodes rg) \<and>
           w_boss (nodeTypes mg') = 0 \<and> mg_draws mg' = mg_draws mg"
proof -
  let ?r = "mg_draws mg (mg_cursor mg)"
  let ?mg1 = "mg\<lparr>mg_cursor := Suc (mg_cursor mg)\<rparr>"
  let ?last = "int idx = cnt - 1"
  let ?L = "if ?last then randomInt 4 7 ?r + 1 else randomInt 4 7 ?r"
  let ?d = "rt_difficulty rt + real idx * 0.2"
  have "0 \<le> ?r \<and> ?r < 1" using dr by (simp add: unitDraws_def)
  then have "4 \<le> randomInt 4 7 ?r" using randomInt_range [of ?r 4 7] by simp
  then have pos: "int 0 < ?L" by simp
  have w1: "w_boss (nodeTypes ?mg1) = 0" using wb by simp
  from generateNodes_shape [OF w1 pos, of key rt ?d ?last] obtain nds mg' where
    g: "generateNodes key rt ?d ?last ?L 0 ?mg1 = Inr (nds, mg')"
    and sh: "bossOnlyLast ?last nds"
    and w': "w_boss (nodeTypes mg') = 0" and d': "mg_draws mg' = mg_draws ?mg1"
    by blast
  have "generateRegion (Some key) idx cnt mg =
          Inr (\<lparr>rkey = key, rname = rt_name rt, rindex = idx, rlength = ?L,
                rdifficulty = ?d, rnodes = nds\<rparr>, mg')"
    using key g by (simp add: generateRegion_def mgRandom_def Let_def)
  with sh w' d' show ?thesis by simp
qed

lemma region_keys: "map fst regions = [''forest'', ''desert'', ''ice'', ''ruins'']"
  by (simp add: regions_def)

lemma goodSelection_length:
  assumes "goodSelection sel"
  shows "length sel \<le> 4"
proof -
  have "card (set sel) \<le> card (Some ` set (map fst regions))"
    using assms by (intro card_mono) (auto simp: goodSelection_def)
  also have "\<dots> \<le> card (set (map fst regions))" by (intro card_image_le) simp
  also have "\<dots> \<le> length (map fst regions)" by (rule card_length)
  also have "\<dots> = 4" by (simp add: region_keys)
  finally show ?thesis using assms by (simp add: goodSelection_def distinct_card)
qed

lemma remaining_nonempty:
  assumes good: "goodSelection sel" and short: "length sel < length regions"
  shows "filter (\<lambda>r. Some r \<notin> set sel) (map fst regions) \<noteq> []"
proof
  assume "filter (\<lambda>r. Some r \<notin> set sel) (map fst regions) = []"
  then have all: "\<forall>k \<in> set (map fst regions). Some k \<in> set sel"
    by (auto simp: filter_empty_conv)
  have d: "distinct (map fst regions)" by (simp add: region_keys)
  have "card (Some ` set (map fst regions)) = card (set (map fst regions))"
    by (intro card_image) (simp add: inj_on_def)
  also have "\<dots> = length (map fst regions)" using d by (rule distinct_card)
  finally have c: "card (Some ` set (map fst regions)) = length regions" by simp
  have "Some ` set (map fst regions) \<subseteq> set sel" using all by auto
  then have "card (Some ` set (map fst regions)) \<le> card (set sel)"
    by (intro card_mono) simp_all
  also have "\<dots> \<le> length sel" by (rule card_length)
  finally show False using c short by simp
qed

lemma selectLoop_shape:
  assumes "unitDraws (mg_draws mg)" and "goodSelection sel" and "0 \<le> count"
  shows "\<exists>ext mg'. selectLoop count sel mg = (sel @ ext, mg') \<and> goodSelection (sel @ ext) \<and>
           length (sel @ ext) = min 4 (length sel + nat count) \<and>
           nodeTypes mg' = nodeTypes mg \<and> mg_draws mg' = mg_draws mg"
  using assms
proof (induction count sel mg rule: selectLoop.induct)
  case (1 count sel mg)
  have len4: "length sel \<le> 4" using goodSelection_length [OF "1.prems"(2)] .
  have lr: "length regions = 4" by (simp add: regions_def)
  show ?case
  proof (cases "count > 0 \<and> length regions > length sel")
    case False
    have stop: "selectLoop count sel mg = (sel, mg)"
      using False by (subst selectLoop.simps) auto
    have "length sel = min 4 (length sel + nat count)"
      using False len4 lr "1.prems"(3) by auto
    with stop "1.prems"(2) show ?thesis by (intro exI [of _ "[]"] exI [of _ mg]) simp
  next
    case True
    let ?rem = "filter (\<lambda>r. Some r \<notin> set sel) (map fst regions)"
    let ?r = "mg_draws mg (mg_cursor mg)"
    let ?mg1 = "mg\<lparr>mg_cursor := Suc (mg_cursor mg)\<rparr>"
    have ne: "?rem \<noteq> []" using remaining_nonempty [OF "1.prems"(2)] True by simp
    have r: "0 \<le> ?r" "?r < 1" using "1.prems"(1) by (simp_all add: unitDraws_def)
    from randomChoice_member [OF r ne] obtain k where
      ch: "randomChoice ?rem ?r = Some k" and kin: "k \<in> set ?rem" by blast
    have good1: "goodSelection (sel @ [Some k])"
      using "1.prems"(2) kin by (auto simp: goodSelection_def)
    have dr1: "unitDraws (mg_draws ?mg1)" using "1.prems"(1) by simp
    have c1: "0 \<le> count - 1" using True by simp
    have rnd: "mgRandom mg = (?r, ?mg1)" by (simp add: mgRandom_def)
    have good1': "goodSelection (sel @ [randomChoice ?rem ?r])" using good1 ch by simp
    from "1.IH" [OF True refl refl rnd [symmetric] dr1 good1' c1] ch
    obtain ext mg' where
      rec: "selectLoop (count - 1) (sel @ [Some k]) ?mg1 = ((sel @ [Some k]) @ ext, mg')"
      and g': "goodSelection ((sel @ [Some k]) @ ext)"
      and l': "length ((sel @ [Some k]) @ ext) = min 4 (length (sel @ [Some k]) + nat (count - 1))"
      and n': "nodeTypes mg' = nodeTypes ?mg1" and d': "mg_draws mg' = mg_draws ?mg1"
      by auto
    have res: "selectLoop count sel mg = (sel @ (Some k # ext), mg')"
      using True rec ch rnd by (subst selectLoop.simps) (simp add: Let_def)
    have "length (sel @ [Some k]) + nat (count - 1) = length sel + nat count"
      using True by (simp add: nat_diff_distrib)
    with res g' l' n' d' show ?thesis
      by (intro exI [of _ "Some k # ext"] exI [of _ mg']) simp
  qed
qed


lemma bossOnlyLast_flags:
  "bossOnlyLast b nds =
     (list_all Not (butlast (map isBossNode nds)) \<and> map isBossNode nds \<noteq> [] \<and>
      last (map isBossNode nds) = b)"
  by (cases "nds = []")
     (auto simp: bossOnlyLast_def map_butlast [symmetric] list_all_iff last_map)

lemma indexed_flags:
  "map isBossNode (map (\<lambda>(j, nd). nd\<lparr>globalIndex := Some (n + j), regionIndex := Some ri\<rparr>)
                       (enumerate 0 nds)) = map isBossNode nds"
proof -
  have "map isBossNode (map (\<lambda>(j, nd). nd\<lparr>globalIndex := Some (n + j), regionIndex := Some ri\<rparr>)
                            (enumerate 0 nds))
        = map (isBossNode \<circ> snd) (zip [0..<length nds] nds)"
    by (simp add: enumerate_eq_zip isBossNode_def case_prod_beta comp_def)
  also have "\<dots> = map isBossNode (map snd (zip [0..<length nds] nds))"
    by (simp only: map_map)
  also have "\<dots> = map isBossNode nds" by (simp add: map_snd_zip)
  finally show ?thesis .
qed

lemma bossOnlyLast_indexed:
  "bossOnlyLast b nds \<Longrightarrow>
   bossOnlyLast b (map (\<lambda>(j, nd). nd\<lparr>globalIndex := Some (n + j), regionIndex := Some ri\<rparr>)
                      (enumerate 0 nds))"
  unfolding bossOnlyLast_flags indexed_flags .

lemma bossOnlyLast_append:
  assumes "bossOnlyLast False xs" and "bossOnlyLast True ys"
  shows "bossOnlyLast True (xs @ ys)"
proof -
  have "list_all (\<lambda>nd. \<not> isBossNode nd) xs"
    using assms(1) by (cases xs rule: rev_cases) (auto simp: bossOnlyLast_def)
  with assms(2) show ?thesis by (simp add: bossOnlyLast_def butlast_append)
qed

lemma bossOnlyLast_count:
  assumes "bossOnlyLast True nds"
  shows "length (filter isBossNode nds) = 1 \<and> isBossNode (last nds)"
proof -
  from assms have ne: "nds \<noteq> []" and l: "isBossNode (last nds)"
    and f: "list_all (\<lambda>nd. \<not> isBossNode nd) (butlast nds)"
    by (simp_all add: bossOnlyLast_def)
  have "filter isBossNode (butlast nds) = []"
    using f by (simp add: list_all_iff filter_empty_conv)
  moreover have "nds = butlast nds @ [last nds]" using ne by simp
  ultimately have "filter isBossNode nds = [last nds]"
    using l by (metis filter.simps(1,2) filter_append self_append_conv2)
  with l show ?thesis by simp
qed

lemma generateRegions_shape:
  assumes "unitDraws (mg_draws mg)" and "w_boss (nodeTypes mg) = 0"
      and "set ks \<subseteq> Some ` set (map fst regions)" and "ks \<noteq> []"
      and "int idx + int (length ks) = cnt"
  shows "\<exists>rgs flat mg'. generateRegions ks idx cnt n mg = Inr ((rgs, flat), mg') \<and>
           map (\<lambda>rg. Some (rkey rg)) rgs = ks \<and> flat = concat (map rnodes rgs) \<and>
           bossOnlyLast True flat \<and> last flat = last (rnodes (last rgs)) \<and>
           w_boss (nodeTypes mg') = 0 \<and> mg_draws mg' = mg_draws mg"
  using assms
proof (induction ks arbitrary: idx n mg)
  case Nil
  then show ?case by simp
next
  case (Cons k ks)
  from Cons.prems(3) obtain key where k: "k = Some key" and kin: "key \<in> set (map fst regions)"
    by auto
  from kin obtain rt where rt: "map_of regions key = Some rt"
    by (auto simp: regions_def)
  let ?last = "int idx = cnt - 1"
  from generateRegion_shape [OF Cons.prems(1,2) rt, of idx cnt] obtain rg mg1 where
    g: "generateRegion (Some key) idx cnt mg = Inr (rg, mg1)" and rk: "rkey rg = key"
    and sh: "bossOnlyLast ?last (rnodes rg)"
    and w1: "w_boss (nodeTypes mg1) = 0" and d1: "mg_draws mg1 = mg_draws mg"
    by blast
  let ?nds = "map (\<lambda>(j, nd). nd\<lparr>globalIndex := Some (n + j), regionIndex := Some idx\<rparr>)
                  (enumerate 0 (rnodes rg))"
  let ?rg1 = "rg\<lparr>rnodes := ?nds\<rparr>"
  have sh1: "bossOnlyLast ?last ?nds" using bossOnlyLast_indexed [OF sh] .
  then have ne1: "?nds \<noteq> []" by (simp add: bossOnlyLast_def)
  show ?case
  proof (cases "ks = []")
    case True
    then have lastr: ?last using Cons.prems(5) by simp
    have "generateRegions (k # ks) idx cnt n mg = Inr (([?rg1], ?nds), mg1)"
      using True k g by (simp add: Let_def)
    moreover have "bossOnlyLast True ?nds" using sh1 lastr by simp
    ultimately show ?thesis using True k rk w1 d1 by simp
  next
    case False
    then have notlast: "\<not> ?last" using Cons.prems(5) by (cases ks) auto
    have dr1: "unitDraws (mg_draws mg1)" using Cons.prems(1) d1 by simp
    have sub: "set ks \<subseteq> Some ` set (map fst regions)" using Cons.prems(3) by simp
    have cnt1: "int (Suc idx) + int (length ks) = cnt" using Cons.prems(5) by simp
    from Cons.IH [OF dr1 w1 sub False cnt1, of "n + length ?nds"] obtain rgs flat mg' where
      rec: "generateRegions ks (Suc idx) cnt (n + length ?nds) mg1 = Inr ((rgs, flat), mg')"
      and keys: "map (\<lambda>rg. Some (rkey rg)) rgs = ks" and fl: "flat = concat (map rnodes rgs)"
      and shf: "bossOnlyLast True flat" and lf: "last flat = last (rnodes (last rgs))"
      and w': "w_boss (nodeTypes mg') = 0" and d': "mg_draws mg' = mg_draws mg1"
      by blast
    have rgs_ne: "rgs \<noteq> []" using keys False by auto
    have flat_ne: "flat \<noteq> []" using shf by (simp add: bossOnlyLast_def)
    have res: "generateRegions (k # ks) idx cnt n mg = Inr ((?rg1 # rgs, ?nds @ flat), mg')"
      using k g rec by (simp add: Let_def)
    have "bossOnlyLast False ?nds" using sh1 notlast by simp
    then have "bossOnlyLast True (?nds @ flat)" using shf by (rule bossOnlyLast_append)
    moreover have "last (?nds @ flat) = last (rnodes (last (?rg1 # rgs)))"
      using flat_ne rgs_ne lf by simp
    ultimately show ?thesis using res k rk keys fl w' d' d1 by simp
  qed
qed

text \<open>
  C6. With draws in [0, 1) and the boss weight at the table's 0 (where every run leaves
  it), \<open>generateRun\<close> returns a map. It has as many regions as the count it drew, between
  2 and 4, and the first is the forest. The run's node list is the regions' node lists
  in order; exactly one of its nodes is a boss node, and it is the last node of the
  last region, the last node of the run.
\<close>

theorem generateRun_one_boss_last:
  assumes "unitDraws (mg_draws mg)" and "w_boss (nodeTypes mg) = 0"
  shows "\<exists>rm mg'. generateRun mg = Inr (rm, mg') \<and>
           int (length (rm_regions rm)) = randomInt 2 4 (mg_draws mg (Suc (mg_cursor mg))) \<and>
           2 \<le> length (rm_regions rm) \<and> length (rm_regions rm) \<le> 4 \<and>
           rkey (hd (rm_regions rm)) = ''forest'' \<and>
           rm_nodes rm = concat (map rnodes (rm_regions rm)) \<and>
           length (filter isBossNode (rm_nodes rm)) = 1 \<and>
           isBossNode (last (rm_nodes rm)) \<and>
           last (rm_nodes rm) = last (rnodes (last (rm_regions rm))) \<and>
           w_boss (nodeTypes mg') = 0 \<and> mg_draws mg' = mg_draws mg"
proof -
  let ?mg0 = "mg\<lparr>mg_cursor := Suc (mg_cursor mg)\<rparr>"
  let ?r = "mg_draws mg (Suc (mg_cursor mg))"
  let ?mg1 = "mg\<lparr>mg_cursor := Suc (Suc (mg_cursor mg))\<rparr>"
  let ?cnt = "randomInt 2 4 ?r"
  have "0 \<le> ?r \<and> ?r < 1" using assms(1) by (simp add: unitDraws_def)
  then have cnt: "2 \<le> ?cnt" "?cnt \<le> 4" using randomInt_range [of ?r 2 4] by simp_all
  have dr1: "unitDraws (mg_draws ?mg1)" using assms(1) by simp
  have good0: "goodSelection [Some ''forest'']"
    by (simp add: goodSelection_def region_keys)
  have c0: "0 \<le> ?cnt - 1" using cnt by simp
  from selectLoop_shape [OF dr1 good0 c0] obtain ext mg2 where
    sel: "selectLoop (?cnt - 1) [Some ''forest''] ?mg1 = ([Some ''forest''] @ ext, mg2)"
    and good: "goodSelection ([Some ''forest''] @ ext)"
    and len: "length ([Some ''forest''] @ ext) = min 4 (length [Some ''forest''] + nat (?cnt - 1))"
    and n2: "nodeTypes mg2 = nodeTypes ?mg1" and d2: "mg_draws mg2 = mg_draws ?mg1"
    by blast
  let ?ks = "Some ''forest'' # ext"
  have len': "int (length ?ks) = ?cnt" using len cnt by simp
  have dr2: "unitDraws (mg_draws mg2)" using assms(1) d2 by simp
  have w2: "w_boss (nodeTypes mg2) = 0" using assms(2) n2 by simp
  have sub: "set ?ks \<subseteq> Some ` set (map fst regions)" using good by (simp add: goodSelection_def)
  have cnt0: "int 0 + int (length ?ks) = ?cnt" using len' by simp
  from generateRegions_shape [OF dr2 w2 sub _ cnt0, of 0] obtain rgs flat mg3 where
    gen: "generateRegions ?ks 0 ?cnt 0 mg2 = Inr ((rgs, flat), mg3)"
    and keys: "map (\<lambda>rg. Some (rkey rg)) rgs = ?ks" and fl: "flat = concat (map rnodes rgs)"
    and shf: "bossOnlyLast True flat" and lf: "last flat = last (rnodes (last rgs))"
    and w3: "w_boss (nodeTypes mg3) = 0" and d3: "mg_draws mg3 = mg_draws mg2"
    by auto
  let ?rm = "\<lparr>rm_regions = rgs, rm_nodes = flat, totalNodes = length flat,
              estimatedDifficulty = calculateRunDifficulty ?ks\<rparr>"
  have run: "generateRun mg = Inr (?rm, mg3)"
    using sel gen by (simp add: generateRun_def selectRegions_def mgRandom_def Let_def)
  have lr: "length rgs = length ?ks" using keys by (metis length_map)
  have hd: "rkey (hd rgs) = ''forest''" using keys by (cases rgs) auto
  from bossOnlyLast_count [OF shf] run lr len' cnt hd fl lf w3 d3 d2 show ?thesis
    by (intro exI [of _ ?rm] exI [of _ mg3]) simp
qed


text \<open>
  A new generator whose draws are all 0.5: three regions (forest, ice, ruins), 19 nodes,
  the boss last.
\<close>

theorem generateRun_witness:
  "unitDraws (mg_draws (newMapGenerator (\<lambda>n. 0.5))) \<and>
   w_boss (nodeTypes (newMapGenerator (\<lambda>n. 0.5))) = 0 \<and>
   (\<exists>rm mg'. generateRun (newMapGenerator (\<lambda>n. 0.5)) = Inr (rm, mg') \<and>
      map rkey (rm_regions rm) = [''forest'', ''ice'', ''ruins''] \<and>
      length (rm_nodes rm) = 19 \<and>
      length (filter isBossNode (rm_nodes rm)) = 1 \<and>
      isBossNode (last (rm_nodes rm)) \<and>
      last (rm_nodes rm) = last (rnodes (last (rm_regions rm))))"
proof -
  let ?mg = "newMapGenerator (\<lambda>n. 0.5)"
  have h1: "unitDraws (mg_draws ?mg)" by (simp add: newMapGenerator_def unitDraws_def)
  have h2: "w_boss (nodeTypes ?mg) = 0" by (simp add: newMapGenerator_def initialNodeTypes_def)
  from generateRun_one_boss_last [OF h1 h2] obtain rm mg' where
    run: "generateRun ?mg = Inr (rm, mg')"
    and one: "length (filter isBossNode (rm_nodes rm)) = 1"
    and lastb: "isBossNode (last (rm_nodes rm))"
    and lastr: "last (rm_nodes rm) = last (rnodes (last (rm_regions rm)))"
    by blast
  have val: "case generateRun ?mg of
               Inl e \<Rightarrow> False
             | Inr (rm, mg') \<Rightarrow>
                 map rkey (rm_regions rm) = [''forest'', ''ice'', ''ruins''] \<and>
                 length (rm_nodes rm) = 19"
    by code_simp
  with run have "map rkey (rm_regions rm) = [''forest'', ''ice'', ''ruins''] \<and>
                 length (rm_nodes rm) = 19" by simp
  with h1 h2 run one lastb lastr show ?thesis
    by (intro conjI exI [of _ rm] exI [of _ mg']) simp_all
qed

section \<open>The node-type weights after a run\<close>

text \<open>
  C2. A new generator, every draw 0.5. After \<open>generateRun\<close> the weight of combat nodes
  in the generator's own \<open>nodeTypes\<close> table is 501.24555, not the 40 it was built with:
  \<open>selectNodeType\<close> has multiplied it at every first and every late node. A second run
  of the same generator from the same draws (the cursor back at 0) therefore differs
  from the first: 18 combat nodes before the boss, where the first run had 5 events and
  13 combat nodes.
\<close>

theorem generateRun_rewrites_node_weights:
  "case generateRun (newMapGenerator (\<lambda>n. 0.5)) of
     Inl e \<Rightarrow> False
   | Inr (rm1, mg1) \<Rightarrow>
       w_combat (nodeTypes (newMapGenerator (\<lambda>n. 0.5))) = 40 \<and>
       nodeTypes mg1 \<noteq> nodeTypes (newMapGenerator (\<lambda>n. 0.5)) \<and>
       w_combat (nodeTypes mg1) = 10024911 / 20000 \<and>
       (case generateRun (mg1\<lparr>mg_cursor := 0\<rparr>) of
          Inl e \<Rightarrow> False
        | Inr (rm2, mg2) \<Rightarrow>
            map ntype (rm_nodes rm1) =
              replicate 5 ''event'' @ replicate 13 ''combat'' @ [''boss''] \<and>
            map ntype (rm_nodes rm2) = replicate 18 ''combat'' @ [''boss''])"
  by code_simp


theorem generateRun_rewrites_witness:
  "\<exists>rm1 mg1. generateRun (newMapGenerator (\<lambda>n. 0.5)) = Inr (rm1, mg1) \<and>
      w_combat (nodeTypes mg1) \<noteq> w_combat (nodeTypes (newMapGenerator (\<lambda>n. 0.5)))"
proof -
  obtain rm1 mg1 where
    run: "generateRun (newMapGenerator (\<lambda>n. 0.5)) = Inr (rm1, mg1)"
    and w: "w_combat (nodeTypes (newMapGenerator (\<lambda>n. 0.5))) = 40 \<and>
            w_combat (nodeTypes mg1) = 10024911 / 20000"
    using generateRun_rewrites_node_weights
    by (cases "generateRun (newMapGenerator (\<lambda>n. 0.5))") auto
  from w have "w_combat (nodeTypes mg1) \<noteq> w_combat (nodeTypes (newMapGenerator (\<lambda>n. 0.5)))"
    by simp
  with run show ?thesis by blast
qed

end
